theory Spec2Isabelle
  imports Complex_Main "HOL-Library.Product_Lexorder" "HOL-Library.Multiset"
begin

section \<open>The option-chain polling pipeline of trr.py\<close>

text \<open>
  A shallow embedding of \<^verbatim>\<open>src/trr.py\<close>: the helper functions and \<^verbatim>\<open>poll_once\<close>.

  Modelling decisions, all of them visible in the definitions below:
  \<^item> A pandas DataFrame is the list of its rows, in table order. The columns the code reads
    are the fields of a record; every further column of the fetched table travels in the field
    \<open>other_columns\<close>.
  \<^item> Numbers are exact rationals. The rounding of binary floating point, NaN as a number and
    the infinities are not represented; a missing value (None, NaN) of a raw cell is \<open>NA\<close>.
  \<^item> What a library call depends on outside the program is a parameter: how pandas reads a
    string as a number or as a date, how Python prints a number inside an f-string, what the
    two network calls returned, what the clock showed, and whether a file could be written.
  \<^item> A raised exception is the \<open>Inl\<close> branch of a sum; a function that assigns to globals
    returns the state after the assignments, also when it raises.
  \<^item> A file is the table it holds, or \<open>None\<close> while it does not exist. A write goes to the
    file itself: it completes, or it raises before the file is opened and leaves the file
    as it was, or it raises after the open has emptied the file and leaves the rows written
    so far. A row torn in the middle is not represented.
\<close>

subsection \<open>Configuration\<close>

definition OI_THRESHOLD :: int where
  "OI_THRESHOLD = 500000"

definition STRIKE_OFFSET :: int where
  "STRIKE_OFFSET = 200"

definition STRIKE_RANGE :: int where
  "STRIKE_RANGE = 250"

subsection \<open>Data\<close>

text \<open>A date is (year, month, day); the lexicographic order on the triple is the calendar order.\<close>

type_synonym date = "nat \<times> nat \<times> nat"

definition year :: "date \<Rightarrow> nat" where
  "year d = fst d"

definition month :: "date \<Rightarrow> nat" where
  "month d = fst (snd d)"

text \<open>A cell of the fetched table: loosely typed, a number, a string or missing.\<close>

datatype cell = Num rat | Txt string | NA

datatype error = Exception string | ValueError | IndexError | OSError

text \<open>
  A row of the option chain. \<open>'n\<close> is the type of the nine numeric columns and \<open>'d\<close> the type
  of the expiry column: cells in the fetched table, rationals and dates after normalization.
\<close>

record ('n, 'd, 'x) chain_row =
  CALLS_OI :: 'n
  CALLS_Chng_in_OI :: 'n
  CALLS_LTP :: 'n
  CALLS_Net_Chng :: 'n
  PUTS_OI :: 'n
  PUTS_Chng_in_OI :: 'n
  PUTS_LTP :: 'n
  PUTS_Net_Chng :: 'n
  Strike_Price :: 'n
  Expiry_Date :: 'd
  other_columns :: 'x

text \<open>
  A row of the displayed table. The fields stand, in this order, for the columns
  \<^verbatim>\<open>Expiry_Date, CE dLTP, CE LTP, CE dOI, CE OI, Strike, PE OI, PE dOI, PE LTP, PE dLTP\<close>
  (d for the Greek capital delta of the source).
\<close>

record display_row =
  Expiry :: date
  CE_dLTP :: rat
  CE_LTP :: rat
  CE_dOI :: rat
  CE_OI :: rat
  Strike :: rat
  PE_OI :: rat
  PE_dOI :: rat
  PE_LTP :: rat
  PE_dLTP :: rat

text \<open>A row of the signal log: the columns \<^verbatim>\<open>Timestamp, Signal, Strike, Reason\<close>.\<close>

record signal =
  Timestamp :: string
  Signal :: string
  Signal_Strike :: rat
  Reason :: string

text \<open>
  The globals of the module and the two files \<^verbatim>\<open>poll_once\<close> writes. The signal log in memory
  keeps its index labels, since \<^verbatim>\<open>signals_df.loc[len(signals_df)] = ...\<close> addresses a row by label.
\<close>

record state =
  latest_snapshot :: "display_row list"
  signals_df :: "(nat \<times> signal) list"
  expiry_list :: "date list"
  latest_spot :: rat
  last_poll_time :: "nat option"
  SIGNALS_CSV :: "signal list option"
  SNAPSHOT_CSV :: "display_row list option"

text \<open>What \<^verbatim>\<open>nse_live_option_chain(SYMBOL)\<close> did: it raised, or returned something.\<close>

datatype 'x fetched =
  Fetch_Raised string
| Not_A_DataFrame
| DataFrame "(cell, cell, 'x) chain_row list"

text \<open>
  How one \<^verbatim>\<open>to_csv\<close> on a path ended: all rows written; an exception before the file was
  opened; or an exception after the open, with the given number of rows written before it.
\<close>

datatype write_outcome = Written | Raised_Before_Open | Raised_After_Open nat

text \<open>Everything one pass reads from outside the program.\<close>

record 'x world =
  option_chain :: "'x fetched"
  spot_response :: "rat option"
  num_of_string :: "string \<Rightarrow> rat option"
  to_datetime :: "cell list \<Rightarrow> cell \<Rightarrow> date option"
  str_of_num :: "rat \<Rightarrow> string"
  now_signals :: string
  now_poll :: nat
  signals_csv_write :: write_outcome
  snapshot_csv_write :: write_outcome

subsection \<open>get_nifty_spot\<close>

text \<open>
  The argument is the number the request and the parsing of its answer produced, \<open>None\<close> when
  any of it raised: the function catches every exception and returns 0.0.
\<close>

definition get_nifty_spot :: "rat option \<Rightarrow> rat" where
  "get_nifty_spot response = (case response of None \<Rightarrow> 0 | Some v \<Rightarrow> v)"

subsection \<open>process_option_chain\<close>

text \<open>
  \<^verbatim>\<open>pd.to_numeric(col, errors="coerce")\<close> on one entry: a number stays, a string is read by
  pandas (the parameter), everything unreadable is NaN (\<open>None\<close>). \<^verbatim>\<open>fillna(0)\<close> follows.
\<close>

fun to_numeric :: "(string \<Rightarrow> rat option) \<Rightarrow> cell \<Rightarrow> rat option" where
  "to_numeric p (Num q) = Some q"
| "to_numeric p (Txt s) = p s"
| "to_numeric p NA = None"

definition fillna :: "rat \<Rightarrow> rat option \<Rightarrow> rat" where
  "fillna v x = (case x of None \<Rightarrow> v | Some q \<Rightarrow> q)"

text \<open>The loop over the nine numeric columns, seen from one row.\<close>

definition numeric_columns ::
  "(string \<Rightarrow> rat option) \<Rightarrow> (cell, 'd, 'x) chain_row \<Rightarrow> (rat, 'd, 'x) chain_row" where
  "numeric_columns p r =
     \<lparr>CALLS_OI = fillna 0 (to_numeric p (CALLS_OI r)),
      CALLS_Chng_in_OI = fillna 0 (to_numeric p (CALLS_Chng_in_OI r)),
      CALLS_LTP = fillna 0 (to_numeric p (CALLS_LTP r)),
      CALLS_Net_Chng = fillna 0 (to_numeric p (CALLS_Net_Chng r)),
      PUTS_OI = fillna 0 (to_numeric p (PUTS_OI r)),
      PUTS_Chng_in_OI = fillna 0 (to_numeric p (PUTS_Chng_in_OI r)),
      PUTS_LTP = fillna 0 (to_numeric p (PUTS_LTP r)),
      PUTS_Net_Chng = fillna 0 (to_numeric p (PUTS_Net_Chng r)),
      Strike_Price = fillna 0 (to_numeric p (Strike_Price r)),
      Expiry_Date = Expiry_Date r,
      other_columns = other_columns r\<rparr>"

text \<open>Assigning a new expiry column: the entry of one row replaced, the rest of the row kept.\<close>

definition with_Expiry_Date :: "('n, 'd, 'x) chain_row \<Rightarrow> 'e \<Rightarrow> ('n, 'e, 'x) chain_row" where
  "with_Expiry_Date r d =
     \<lparr>CALLS_OI = CALLS_OI r,
      CALLS_Chng_in_OI = CALLS_Chng_in_OI r,
      CALLS_LTP = CALLS_LTP r,
      CALLS_Net_Chng = CALLS_Net_Chng r,
      PUTS_OI = PUTS_OI r,
      PUTS_Chng_in_OI = PUTS_Chng_in_OI r,
      PUTS_LTP = PUTS_LTP r,
      PUTS_Net_Chng = PUTS_Net_Chng r,
      Strike_Price = Strike_Price r,
      Expiry_Date = d,
      other_columns = other_columns r\<rparr>"

text \<open>\<^verbatim>\<open>df.dropna(subset=["Expiry_Date"])\<close>: NaT is \<open>None\<close>.\<close>

fun dropna_Expiry_Date :: "('n, 'd option, 'x) chain_row list \<Rightarrow> ('n, 'd, 'x) chain_row list" where
  "dropna_Expiry_Date [] = []"
| "dropna_Expiry_Date (r # rs) =
     (case Expiry_Date r of
        None \<Rightarrow> dropna_Expiry_Date rs
      | Some d \<Rightarrow> with_Expiry_Date r d # dropna_Expiry_Date rs)"

text \<open>
  \<^verbatim>\<open>pd.to_datetime(col, errors="coerce")\<close> is the parameter \<open>td\<close>: pandas settles how to read
  the column from the column as a whole, then converts each entry, to a date or to NaT.
\<close>

definition process_option_chain ::
  "(string \<Rightarrow> rat option) \<Rightarrow> (cell list \<Rightarrow> cell \<Rightarrow> date option) \<Rightarrow>
   (cell, cell, 'x) chain_row list \<Rightarrow> (rat, date, 'x) chain_row list" where
  "process_option_chain p td df =
     (let df1 = map (numeric_columns p) df;
          col = map Expiry_Date df1;
          df2 = map (\<lambda>r. with_Expiry_Date r (td col (Expiry_Date r))) df1
      in dropna_Expiry_Date df2)"

subsection \<open>filter_atm_range\<close>

definition filter_atm_range ::
  "(rat, 'd, 'x) chain_row list \<Rightarrow> rat \<Rightarrow> (rat, 'd, 'x) chain_row list" where
  "filter_atm_range df spot =
     (if spot \<le> 0 \<or> df = [] then df
      else let lower = of_int \<lfloor>spot / 50\<rfloor> * 50 - of_int STRIKE_RANGE;
               upper = of_int \<lfloor>spot / 50\<rfloor> * 50 + of_int STRIKE_RANGE
           in filter (\<lambda>r. Strike_Price r \<ge> lower \<and> Strike_Price r \<le> upper) df)"

subsection \<open>get_nearest_expiries\<close>

text \<open>\<^verbatim>\<open>Series.unique()\<close>: the distinct values in order of first appearance.\<close>

definition unique :: "'a list \<Rightarrow> 'a list" where
  "unique xs = foldl (\<lambda>seen x. if x \<in> set seen then seen else seen @ [x]) [] xs"

text \<open>
  The dictionary \<^verbatim>\<open>month_groups\<close>, in insertion order: a new key gets the list \<open>[d]\<close>, a
  known key has \<open>d\<close> appended to its list.
\<close>

fun group_append :: "'k \<Rightarrow> 'v \<Rightarrow> ('k \<times> 'v list) list \<Rightarrow> ('k \<times> 'v list) list" where
  "group_append k d [] = [(k, [d])]"
| "group_append k d ((k', v) # g) =
     (if k' = k then (k', v @ [d]) # g else (k', v) # group_append k d g)"

definition month_groups :: "date list \<Rightarrow> ((nat \<times> nat) \<times> date list) list" where
  "month_groups all_exp = foldl (\<lambda>g d. group_append (year d, month d) d g) [] all_exp"

text \<open>Python's \<^verbatim>\<open>max\<close> of a list raises ValueError on the empty list.\<close>

fun py_max :: "'a::linorder list \<Rightarrow> error + 'a" where
  "py_max [] = Inl ValueError"
| "py_max (x # xs) = Inr (foldl max x xs)"

text \<open>The comprehension \<^verbatim>\<open>[max(v) for v in month_groups.values()]\<close>.\<close>

fun py_max_each :: "'a::linorder list list \<Rightarrow> error + 'a list" where
  "py_max_each [] = Inr []"
| "py_max_each (v # vs) =
     (case py_max v of
        Inl e \<Rightarrow> Inl e
      | Inr m \<Rightarrow> (case py_max_each vs of Inl e \<Rightarrow> Inl e | Inr ms \<Rightarrow> Inr (m # ms)))"

definition monthly_expiry :: "date list \<Rightarrow> error + date" where
  "monthly_expiry all_exp =
     (case py_max_each (map snd (month_groups all_exp)) of
        Inl e \<Rightarrow> Inl e
      | Inr ms \<Rightarrow> py_max ms)"

definition get_nearest_expiries :: "('n, date, 'x) chain_row list \<Rightarrow> error + date list" where
  "get_nearest_expiries df =
     (if df = [] then Inr []
      else let all_exp = sort (unique (map Expiry_Date df)) in
        (case all_exp of
           [] \<Rightarrow> Inl IndexError
         | [d] \<Rightarrow> Inr [d]
         | weekly # _ \<Rightarrow>
             (case monthly_expiry all_exp of
                Inl e \<Rightarrow> Inl e
              | Inr monthly \<Rightarrow> Inr (sort (remdups [weekly, monthly])))))"

subsection \<open>prepare_display\<close>

text \<open>The renaming and the selection of the ten columns, seen from one row.\<close>

definition display_columns :: "(rat, date, 'x) chain_row \<Rightarrow> display_row" where
  "display_columns r =
     \<lparr>Expiry = Expiry_Date r,
      CE_dLTP = CALLS_Net_Chng r,
      CE_LTP = CALLS_LTP r,
      CE_dOI = CALLS_Chng_in_OI r,
      CE_OI = CALLS_OI r,
      Strike = Strike_Price r,
      PE_OI = PUTS_OI r,
      PE_dOI = PUTS_Chng_in_OI r,
      PE_LTP = PUTS_LTP r,
      PE_dLTP = PUTS_Net_Chng r\<rparr>"

text \<open>
  \<^verbatim>\<open>sort_values(["Expiry_Date", "Strike"])\<close>: ascending by the pair; rows with equal keys keep
  their table order.
\<close>

definition prepare_display :: "(rat, date, 'x) chain_row list \<Rightarrow> display_row list" where
  "prepare_display df = sort_key (\<lambda>r. (Expiry r, Strike r)) (map display_columns df)"

text \<open>The renames undone: a displayed row read as a row of the normalized table.\<close>

definition undo_renames :: "display_row \<Rightarrow> (rat, date, unit) chain_row" where
  "undo_renames r =
     \<lparr>CALLS_OI = CE_OI r,
      CALLS_Chng_in_OI = CE_dOI r,
      CALLS_LTP = CE_LTP r,
      CALLS_Net_Chng = CE_dLTP r,
      PUTS_OI = PE_OI r,
      PUTS_Chng_in_OI = PE_dOI r,
      PUTS_LTP = PE_LTP r,
      PUTS_Net_Chng = PE_dLTP r,
      Strike_Price = Strike r,
      Expiry_Date = Expiry r,
      other_columns = ()\<rparr>"

subsection \<open>detect_signals\<close>

text \<open>
  \<^verbatim>\<open>df.loc[k] = row\<close> on a table with index labels: every row labelled \<open>k\<close> is overwritten;
  when no row has the label, the row is appended under it.
\<close>

definition loc_set :: "(nat \<times> 'a) list \<Rightarrow> nat \<Rightarrow> 'a \<Rightarrow> (nat \<times> 'a) list" where
  "loc_set df k row =
     (if k \<in> set (map fst df)
      then map (\<lambda>(i, r). if i = k then (i, row) else (i, r)) df
      else df @ [(k, row)])"

text \<open>
  \<^verbatim>\<open>df.to_csv(path, index=False)\<close> writes the rows without their labels to the path itself,
  with no temporary file: opening the path for writing empties the file, then the rows
  follow. The result is the exception, if any, and what the file holds afterwards.
\<close>

definition to_csv ::
  "write_outcome \<Rightarrow> 'a list \<Rightarrow> 'a list option \<Rightarrow> (error + unit) \<times> 'a list option" where
  "to_csv outcome rows file =
     (case outcome of
        Written \<Rightarrow> (Inr (), Some rows)
      | Raised_Before_Open \<Rightarrow> (Inl OSError, file)
      | Raised_After_Open k \<Rightarrow> (Inl OSError, Some (take k rows)))"

text \<open>
  The two reason strings, with \<^verbatim>\<open>{OI_THRESHOLD}\<close> printed; the arrow of the source is the
  three bytes of its UTF-8 form.
\<close>

definition call_reason :: string where
  "call_reason = ''CALL OI '' @ [CHR 0xE2, CHR 0x86, CHR 0x93] @ '' 500000''"

definition put_reason :: string where
  "put_reason = ''PUT OI '' @ [CHR 0xE2, CHR 0x86, CHR 0x93] @ '' 500000''"

definition detect_signals ::
  "(rat \<Rightarrow> string) \<Rightarrow> string \<Rightarrow> write_outcome \<Rightarrow> display_row list \<Rightarrow> state \<Rightarrow>
   (error + unit) \<times> state" where
  "detect_signals fmt now outcome df st =
     (let call_drop = filter (\<lambda>r. CE_dOI r \<le> - of_int OI_THRESHOLD) df;
          put_drop = filter (\<lambda>r. PE_dOI r \<le> - of_int OI_THRESHOLD) df;
          s1 = (case call_drop of
                  [] \<Rightarrow> signals_df st
                | r # _ \<Rightarrow>
                    (let strike = Strike r + of_int STRIKE_OFFSET
                     in loc_set (signals_df st) (length (signals_df st))
                          \<lparr>Timestamp = now, Signal = ''BUY CE '' @ fmt strike,
                           Signal_Strike = strike, Reason = call_reason\<rparr>));
          s2 = (case put_drop of
                  [] \<Rightarrow> s1
                | r # _ \<Rightarrow>
                    (let strike = Strike r + of_int STRIKE_OFFSET
                     in loc_set s1 (length s1)
                          \<lparr>Timestamp = now, Signal = ''BUY PE '' @ fmt strike,
                           Signal_Strike = strike, Reason = put_reason\<rparr>));
          (res, file) = to_csv outcome (map snd s2) (SIGNALS_CSV st)
      in (res, st\<lparr>signals_df := s2, SIGNALS_CSV := file\<rparr>))"

subsection \<open>poll_once\<close>

definition poll_once :: "'x world \<Rightarrow> state \<Rightarrow> (error + display_row list) \<times> state" where
  "poll_once w st =
     (case option_chain w of
        Fetch_Raised msg \<Rightarrow> (Inl (Exception msg), st)
      | Not_A_DataFrame \<Rightarrow> (Inl (Exception ''Empty option chain''), st)
      | DataFrame raw \<Rightarrow>
          if raw = [] then (Inl (Exception ''Empty option chain''), st)
          else
            (let df = process_option_chain (num_of_string w) (to_datetime w) raw;
                 st1 = st\<lparr>latest_spot := get_nifty_spot (spot_response w)\<rparr>;
                 df = filter_atm_range df (latest_spot st1)
             in case get_nearest_expiries df of
                  Inl e \<Rightarrow> (Inl e, st1)
                | Inr el \<Rightarrow>
                   (let st2 = st1\<lparr>expiry_list := el\<rparr>;
                        df = filter (\<lambda>r. Expiry_Date r \<in> set (expiry_list st2)) df;
                        df = prepare_display df;
                        st3 = st2\<lparr>latest_snapshot := df\<rparr>
                    in case detect_signals (str_of_num w) (now_signals w)
                              (signals_csv_write w) df st3 of
                         (Inl e, st4) \<Rightarrow> (Inl e, st4)
                       | (Inr u, st4) \<Rightarrow>
                          (let st5 = st4\<lparr>last_poll_time := Some (now_poll w)\<rparr>;
                               (res, file) = to_csv (snapshot_csv_write w) df (SNAPSHOT_CSV st5)
                           in case res of
                                Inl e \<Rightarrow> (Inl e, st5\<lparr>SNAPSHOT_CSV := file\<rparr>)
                              | Inr u \<Rightarrow> (Inr df, st5\<lparr>SNAPSHOT_CSV := file\<rparr>)))))"

text \<open>
  The module's start: the signal log is read from its file when there is one (pandas labels
  the rows 0, 1, 2, ...), and is the empty table otherwise.
\<close>

definition load_signals :: "signal list option \<Rightarrow> (nat \<times> signal) list" where
  "load_signals file = (case file of None \<Rightarrow> [] | Some rows \<Rightarrow> zip [0..<length rows] rows)"

text \<open>The signal log carries the labels 0, 1, 2, ... in this order.\<close>

definition range_index :: "(nat \<times> 'a) list \<Rightarrow> bool" where
  "range_index df = (map fst df = [0..<length df])"

subsection \<open>Example inputs\<close>

text \<open>
  A small fetched table. The far expiry (June 2026) is listed at the strikes 24000 and 25000
  only; the two near expiries are listed at 24300 and 24350. Strings are what the provider
  sends; \<open>example_to_datetime\<close> and \<open>example_str_of_num\<close> say what pandas and Python make of
  the strings and numbers that occur here.
\<close>

definition example_row :: "cell \<Rightarrow> string \<Rightarrow> cell \<Rightarrow> cell \<Rightarrow> (cell, cell, unit) chain_row" where
  "example_row strike expiry call_doi put_doi =
     \<lparr>CALLS_OI = Num 900000,
      CALLS_Chng_in_OI = call_doi,
      CALLS_LTP = Num (251 / 2),
      CALLS_Net_Chng = Txt ''-'',
      PUTS_OI = Num 800000,
      PUTS_Chng_in_OI = put_doi,
      PUTS_LTP = Num 98,
      PUTS_Net_Chng = NA,
      Strike_Price = strike,
      Expiry_Date = Txt expiry,
      other_columns = ()\<rparr>"

definition example_chain :: "(cell, cell, unit) chain_row list" where
  "example_chain =
     [example_row (Num 25000) ''25-Jun-2026'' (Num 10) (Num 20),
      example_row (Num 24350) ''30-Jan-2025'' (Num (- 600000)) (Num 5),
      example_row (Num 24300) ''30-Jan-2025'' (Num (- 500000)) (Num (- 700000)),
      example_row (Num 24300) ''02-Jan-2025'' (Num (- 750000)) (Num (- 10)),
      example_row (Num 24000) ''25-Jun-2026'' (Num (- 900000)) (Num 0),
      example_row (Num 24300) ''not a date'' (Num 1) (Num 2)]"

definition example_to_datetime :: "cell list \<Rightarrow> cell \<Rightarrow> date option" where
  "example_to_datetime col c =
     (case c of
        Txt s \<Rightarrow>
          map_of [(''02-Jan-2025'', (2025, 1, 2)), (''30-Jan-2025'', (2025, 1, 30)),
                  (''25-Jun-2026'', (2026, 6, 25))] s
      | _ \<Rightarrow> None)"

definition example_str_of_num :: "rat \<Rightarrow> string" where
  "example_str_of_num q =
     (if q = 24500 then ''24500'' else if q = 24550 then ''24550'' else ''?'')"

text \<open>The state before the example pass: one signal logged, a snapshot of one row saved.\<close>

definition example_previous_row :: display_row where
  "example_previous_row =
     \<lparr>Expiry = (2024, 12, 26), CE_dLTP = 1, CE_LTP = 110, CE_dOI = 1000, CE_OI = 700000,
      Strike = 24100, PE_OI = 600000, PE_dOI = - 2000, PE_LTP = 95, PE_dLTP = - 2\<rparr>"

definition example_state :: state where
  "example_state =
     \<lparr>latest_snapshot = [example_previous_row],
      signals_df = [(0, \<lparr>Timestamp = ''2025-01-01 09:30:00'', Signal = ''BUY PE 24200'',
                          Signal_Strike = 24200, Reason = put_reason\<rparr>)],
      expiry_list = [(2024, 12, 26)],
      latest_spot = 24100,
      last_poll_time = Some 1,
      SIGNALS_CSV = Some [\<lparr>Timestamp = ''2025-01-01 09:30:00'', Signal = ''BUY PE 24200'',
                            Signal_Strike = 24200, Reason = put_reason\<rparr>],
      SNAPSHOT_CSV = Some [example_previous_row]\<rparr>"

definition example_world :: "unit world" where
  "example_world =
     \<lparr>option_chain = DataFrame example_chain,
      spot_response = Some 24310,
      num_of_string = (\<lambda>s. None),
      to_datetime = example_to_datetime,
      str_of_num = example_str_of_num,
      now_signals = ''2025-01-02 10:00:00'',
      now_poll = 2,
      signals_csv_write = Written,
      snapshot_csv_write = Written\<rparr>"

text \<open>
  Two rows as a provider sends them, numbers as strings: one with a date, one without.
  \<open>example_num_of_string\<close> says what pandas reads from the strings that occur here; a dash
  and a number with a thousands separator are not read.
\<close>

definition example_text_chain :: "(cell, cell, unit) chain_row list" where
  "example_text_chain =
     [\<lparr>CALLS_OI = Txt ''900000'',
       CALLS_Chng_in_OI = Num (- 600000),
       CALLS_LTP = Txt ''125.5'',
       CALLS_Net_Chng = Txt ''-'',
       PUTS_OI = NA,
       PUTS_Chng_in_OI = Txt ''1,200'',
       PUTS_LTP = Txt ''98'',
       PUTS_Net_Chng = Num (- 3 / 2),
       Strike_Price = Txt ''24350'',
       Expiry_Date = Txt ''30-Jan-2025'',
       other_columns = ()\<rparr>,
      \<lparr>CALLS_OI = Txt ''900000'',
       CALLS_Chng_in_OI = Num 1,
       CALLS_LTP = Num 2,
       CALLS_Net_Chng = Num 3,
       PUTS_OI = Num 4,
       PUTS_Chng_in_OI = Num 5,
       PUTS_LTP = Num 6,
       PUTS_Net_Chng = Num 7,
       Strike_Price = Txt ''24350'',
       Expiry_Date = NA,
       other_columns = ()\<rparr>]"

definition example_num_of_string :: "string \<Rightarrow> rat option" where
  "example_num_of_string =
     map_of [(''900000'', 900000), (''125.5'', 251 / 2), (''98'', 98), (''24350'', 24350)]"

definition example_normalized :: "(rat, date, unit) chain_row list" where
  "example_normalized = process_option_chain (\<lambda>s. None) example_to_datetime example_chain"

text \<open>A normalized table with the given expiry column and nothing else of interest.\<close>

definition example_dated :: "date list \<Rightarrow> (rat, date, unit) chain_row list" where
  "example_dated ds =
     map (\<lambda>d. \<lparr>CALLS_OI = 0, CALLS_Chng_in_OI = 0, CALLS_LTP = 0, CALLS_Net_Chng = 0,
                PUTS_OI = 0, PUTS_Chng_in_OI = 0, PUTS_LTP = 0, PUTS_Net_Chng = 0,
                Strike_Price = 24300, Expiry_Date = d, other_columns = ()\<rparr>) ds"

subsection \<open>The specification's words\<close>

text \<open>
  The expiry selector as the specification describes it, on the set of dates present: nothing
  for no date, the date itself for a single one, otherwise the earliest date and the latest
  of the per-month latest dates, sorted and without duplicates.
\<close>

definition expiry_selector_spec :: "date set \<Rightarrow> date list" where
  "expiry_selector_spec D =
     (if D = {} then []
      else if card D = 1 then [the_elem D]
      else let weekly = Min D;
               groups = (\<lambda>k. {d \<in> D. (year d, month d) = k}) ` (\<lambda>d. (year d, month d)) ` D;
               monthly = Max (Max ` groups)
           in sorted_list_of_set {weekly, monthly})"

text \<open>The earliest and the latest date, sorted and without duplicates.\<close>

definition earliest_latest :: "date set \<Rightarrow> date list" where
  "earliest_latest D = sorted_list_of_set {Min D, Max D}"

text \<open>
  The signals the specification expects from one displayed table: per side at most one, built
  from the first row in table order whose OI change is at most -500000, at that row's strike
  plus 200.
\<close>

definition expected_call_signals ::
  "(rat \<Rightarrow> string) \<Rightarrow> string \<Rightarrow> display_row list \<Rightarrow> signal list" where
  "expected_call_signals fmt now df =
     (case find (\<lambda>r. CE_dOI r \<le> - 500000) df of
        None \<Rightarrow> []
      | Some r \<Rightarrow>
          [\<lparr>Timestamp = now, Signal = ''BUY CE '' @ fmt (Strike r + 200),
            Signal_Strike = Strike r + 200, Reason = call_reason\<rparr>])"

definition expected_put_signals ::
  "(rat \<Rightarrow> string) \<Rightarrow> string \<Rightarrow> display_row list \<Rightarrow> signal list" where
  "expected_put_signals fmt now df =
     (case find (\<lambda>r. PE_dOI r \<le> - 500000) df of
        None \<Rightarrow> []
      | Some r \<Rightarrow>
          [\<lparr>Timestamp = now, Signal = ''BUY PE '' @ fmt (Strike r + 200),
            Signal_Strike = Strike r + 200, Reason = put_reason\<rparr>])"

section \<open>Normalization\<close>

lemma numeric_columns_Expiry_Date: "Expiry_Date (numeric_columns p r) = Expiry_Date r"
  by (simp add: numeric_columns_def)

text \<open>What the two calls make of one cell: a number stays, a string is read or is 0, a
  missing value is 0.\<close>

lemma fillna_to_numeric:
  "fillna 0 (to_numeric p c) =
     (case c of Num q \<Rightarrow> q
      | Txt s \<Rightarrow> (case p s of None \<Rightarrow> 0 | Some q \<Rightarrow> q) | NA \<Rightarrow> 0)"
  by (cases c) (simp_all add: fillna_def)

lemma dropna_normalized:
  "list_all2
     (\<lambda>r n. f (Expiry_Date r) = Some (Expiry_Date n) \<and>
        CALLS_OI n = (case CALLS_OI r of Num q \<Rightarrow> q
           | Txt s \<Rightarrow> (case p s of None \<Rightarrow> 0 | Some q \<Rightarrow> q) | NA \<Rightarrow> 0) \<and>
        CALLS_Chng_in_OI n = (case CALLS_Chng_in_OI r of Num q \<Rightarrow> q
           | Txt s \<Rightarrow> (case p s of None \<Rightarrow> 0 | Some q \<Rightarrow> q) | NA \<Rightarrow> 0) \<and>
        CALLS_LTP n = (case CALLS_LTP r of Num q \<Rightarrow> q
           | Txt s \<Rightarrow> (case p s of None \<Rightarrow> 0 | Some q \<Rightarrow> q) | NA \<Rightarrow> 0) \<and>
        CALLS_Net_Chng n = (case CALLS_Net_Chng r of Num q \<Rightarrow> q
           | Txt s \<Rightarrow> (case p s of None \<Rightarrow> 0 | Some q \<Rightarrow> q) | NA \<Rightarrow> 0) \<and>
        PUTS_OI n = (case PUTS_OI r of Num q \<Rightarrow> q
           | Txt s \<Rightarrow> (case p s of None \<Rightarrow> 0 | Some q \<Rightarrow> q) | NA \<Rightarrow> 0) \<and>
        PUTS_Chng_in_OI n = (case PUTS_Chng_in_OI r of Num q \<Rightarrow> q
           | Txt s \<Rightarrow> (case p s of None \<Rightarrow> 0 | Some q \<Rightarrow> q) | NA \<Rightarrow> 0) \<and>
        PUTS_LTP n = (case PUTS_LTP r of Num q \<Rightarrow> q
           | Txt s \<Rightarrow> (case p s of None \<Rightarrow> 0 | Some q \<Rightarrow> q) | NA \<Rightarrow> 0) \<and>
        PUTS_Net_Chng n = (case PUTS_Net_Chng r of Num q \<Rightarrow> q
           | Txt s \<Rightarrow> (case p s of None \<Rightarrow> 0 | Some q \<Rightarrow> q) | NA \<Rightarrow> 0) \<and>
        Strike_Price n = (case Strike_Price r of Num q \<Rightarrow> q
           | Txt s \<Rightarrow> (case p s of None \<Rightarrow> 0 | Some q \<Rightarrow> q) | NA \<Rightarrow> 0) \<and>
        other_columns n = other_columns r)
     (filter (\<lambda>r. f (Expiry_Date r) \<noteq> None) raw)
     (dropna_Expiry_Date
        (map (\<lambda>r. with_Expiry_Date r (f (Expiry_Date r))) (map (numeric_columns p) raw)))"
proof (induction raw)
  case Nil
  show ?case by simp
next
  case (Cons r raw)
  show ?case
  proof (cases "f (Expiry_Date r)")
    case None
    with Cons show ?thesis
      by (simp add: numeric_columns_Expiry_Date with_Expiry_Date_def)
  next
    case (Some d)
    with Cons show ?thesis
      by (simp add: numeric_columns_Expiry_Date with_Expiry_Date_def numeric_columns_def
            fillna_to_numeric)
  qed
qed

text \<open>
  Claim C5. Normalization is a total function of the fetched table. Its output is, row for
  row and in table order, the rows of the input whose expiry pandas could read as a date,
  and no other row is dropped: the test that keeps a row looks at the expiry entry only.
  In a kept row each of the nine numeric columns holds: the number itself where the entry
  was a number; where it was a string, the number pandas reads from the string, or 0 when
  pandas reads none; and 0 where the entry was missing. The expiry column holds the date
  read; the remaining columns are as they were.
\<close>

theorem process_option_chain_rows:
  "list_all2
     (\<lambda>r n. td (map Expiry_Date raw) (Expiry_Date r) = Some (Expiry_Date n) \<and>
        CALLS_OI n = (case CALLS_OI r of Num q \<Rightarrow> q
           | Txt s \<Rightarrow> (case p s of None \<Rightarrow> 0 | Some q \<Rightarrow> q) | NA \<Rightarrow> 0) \<and>
        CALLS_Chng_in_OI n = (case CALLS_Chng_in_OI r of Num q \<Rightarrow> q
           | Txt s \<Rightarrow> (case p s of None \<Rightarrow> 0 | Some q \<Rightarrow> q) | NA \<Rightarrow> 0) \<and>
        CALLS_LTP n = (case CALLS_LTP r of Num q \<Rightarrow> q
           | Txt s \<Rightarrow> (case p s of None \<Rightarrow> 0 | Some q \<Rightarrow> q) | NA \<Rightarrow> 0) \<and>
        CALLS_Net_Chng n = (case CALLS_Net_Chng r of Num q \<Rightarrow> q
           | Txt s \<Rightarrow> (case p s of None \<Rightarrow> 0 | Some q \<Rightarrow> q) | NA \<Rightarrow> 0) \<and>
        PUTS_OI n = (case PUTS_OI r of Num q \<Rightarrow> q
           | Txt s \<Rightarrow> (case p s of None \<Rightarrow> 0 | Some q \<Rightarrow> q) | NA \<Rightarrow> 0) \<and>
        PUTS_Chng_in_OI n = (case PUTS_Chng_in_OI r of Num q \<Rightarrow> q
           | Txt s \<Rightarrow> (case p s of None \<Rightarrow> 0 | Some q \<Rightarrow> q) | NA \<Rightarrow> 0) \<and>
        PUTS_LTP n = (case PUTS_LTP r of Num q \<Rightarrow> q
           | Txt s \<Rightarrow> (case p s of None \<Rightarrow> 0 | Some q \<Rightarrow> q) | NA \<Rightarrow> 0) \<and>
        PUTS_Net_Chng n = (case PUTS_Net_Chng r of Num q \<Rightarrow> q
           | Txt s \<Rightarrow> (case p s of None \<Rightarrow> 0 | Some q \<Rightarrow> q) | NA \<Rightarrow> 0) \<and>
        Strike_Price n = (case Strike_Price r of Num q \<Rightarrow> q
           | Txt s \<Rightarrow> (case p s of None \<Rightarrow> 0 | Some q \<Rightarrow> q) | NA \<Rightarrow> 0) \<and>
        other_columns n = other_columns r)
     (filter (\<lambda>r. td (map Expiry_Date raw) (Expiry_Date r) \<noteq> None) raw)
     (process_option_chain p td raw)"
proof -
  have col: "map Expiry_Date (map (numeric_columns p) raw) = map Expiry_Date raw"
    by (simp add: numeric_columns_Expiry_Date)
  show ?thesis
    unfolding process_option_chain_def Let_def col
    by (rule dropna_normalized)
qed

text \<open>
  The example table has six rows; the one whose expiry is not a date is dropped, the five
  others stay in order, and their unreadable price changes (a dash, a missing value) are 0.
  Of the two rows sent as text the one without a date is dropped; in the other the strings
  that are numbers are read (the strike 24350, the open interest, the prices), the dash, the
  number with a separator and the missing value are 0, and the numbers stay.
\<close>

theorem process_option_chain_rows_witness:
  "length (filter (\<lambda>r. example_to_datetime (map Expiry_Date example_chain) (Expiry_Date r) \<noteq> None)
     example_chain) = 5 \<and>
   length (process_option_chain (\<lambda>s. None) example_to_datetime example_chain) = 5 \<and>
   map (\<lambda>n. (Strike_Price n, Expiry_Date n, CALLS_Net_Chng n, PUTS_Net_Chng n))
     (process_option_chain (\<lambda>s. None) example_to_datetime example_chain) =
     [(25000, (2026, 6, 25), 0, 0), (24350, (2025, 1, 30), 0, 0), (24300, (2025, 1, 30), 0, 0),
      (24300, (2025, 1, 2), 0, 0), (24000, (2026, 6, 25), 0, 0)] \<and>
   map (\<lambda>n. ((CALLS_OI n, CALLS_Chng_in_OI n, CALLS_LTP n, CALLS_Net_Chng n),
              (PUTS_OI n, PUTS_Chng_in_OI n, PUTS_LTP n, PUTS_Net_Chng n),
              Strike_Price n, Expiry_Date n))
     (process_option_chain example_num_of_string example_to_datetime example_text_chain) =
     [((900000, - 600000, 251 / 2, 0), (0, 0, 98, - 3 / 2), 24350, (2025, 1, 30))]"
proof -
  have kept: "length (filter (\<lambda>r. example_to_datetime (map Expiry_Date example_chain)
      (Expiry_Date r) \<noteq> None) example_chain) = 5"
    by code_simp
  have cells: "map (\<lambda>n. (Strike_Price n, Expiry_Date n, CALLS_Net_Chng n, PUTS_Net_Chng n))
     (process_option_chain (\<lambda>s. None) example_to_datetime example_chain) =
     [(25000, (2026, 6, 25), 0, 0), (24350, (2025, 1, 30), 0, 0), (24300, (2025, 1, 30), 0, 0),
      (24300, (2025, 1, 2), 0, 0), (24000, (2026, 6, 25), 0, 0)]"
    by code_simp
  have text_cells: "map (\<lambda>n. ((CALLS_OI n, CALLS_Chng_in_OI n, CALLS_LTP n, CALLS_Net_Chng n),
              (PUTS_OI n, PUTS_Chng_in_OI n, PUTS_LTP n, PUTS_Net_Chng n),
              Strike_Price n, Expiry_Date n))
     (process_option_chain example_num_of_string example_to_datetime example_text_chain) =
     [((900000, - 600000, 251 / 2, 0), (0, 0, 98, - 3 / 2), 24350, (2025, 1, 30))]"
    by code_simp
  from process_option_chain_rows [of example_to_datetime example_chain "\<lambda>s. None"]
  have "length (process_option_chain (\<lambda>s. None) example_to_datetime example_chain) =
    length (filter (\<lambda>r. example_to_datetime (map Expiry_Date example_chain)
      (Expiry_Date r) \<noteq> None) example_chain)"
    by (simp add: list_all2_lengthD)
  with kept cells text_cells show ?thesis by simp
qed

section \<open>The strike window\<close>

text \<open>
  Claim C2. With a positive spot and a non-empty table the filter returns the rows whose
  strike lies between floor(S/50)*50 - 250 and floor(S/50)*50 + 250, both ends included, as
  they are and in table order; with a spot that is not positive, or an empty table, it
  returns its input. For the spot 24310 the window is from 24050 to 24550, so a row at
  strike 24000 is left out and a row at strike 24100 is kept.
\<close>

theorem filter_atm_range_window:
  "filter_atm_range df S =
     (if 0 < S \<and> df \<noteq> []
      then filter (\<lambda>r. of_int \<lfloor>S / 50\<rfloor> * 50 - 250 \<le> Strike_Price r \<and>
                       Strike_Price r \<le> of_int \<lfloor>S / 50\<rfloor> * 50 + 250) df
      else df) \<and>
   filter_atm_range df 24310 =
     filter (\<lambda>r. 24050 \<le> Strike_Price r \<and> Strike_Price r \<le> 24550) df \<and>
   (\<forall>r. Strike_Price r = 24000 \<longrightarrow> r \<notin> set (filter_atm_range df 24310)) \<and>
   (\<forall>r \<in> set df. Strike_Price r = 24100 \<longrightarrow> r \<in> set (filter_atm_range df 24310))"
proof -
  have c: "\<lfloor>(24310::rat) / 50\<rfloor> = 486"
    by (simp add: floor_eq_iff)
  have w: "filter_atm_range df 24310 =
     filter (\<lambda>r. 24050 \<le> Strike_Price r \<and> Strike_Price r \<le> 24550) df"
    unfolding filter_atm_range_def Let_def STRIKE_RANGE_def c by (cases df) simp_all
  have g: "filter_atm_range df S =
     (if 0 < S \<and> df \<noteq> []
      then filter (\<lambda>r. of_int \<lfloor>S / 50\<rfloor> * 50 - 250 \<le> Strike_Price r \<and>
                       Strike_Price r \<le> of_int \<lfloor>S / 50\<rfloor> * 50 + 250) df
      else df)"
    by (auto simp: filter_atm_range_def Let_def STRIKE_RANGE_def not_less)
  have out: "\<forall>r. Strike_Price r = 24000 \<longrightarrow> r \<notin> set (filter_atm_range df 24310)"
    unfolding w by simp
  have inside: "\<forall>r \<in> set df. Strike_Price r = 24100 \<longrightarrow> r \<in> set (filter_atm_range df 24310)"
    unfolding w by simp
  from g w out inside show ?thesis by blast
qed

text \<open>
  On the normalized example table and the spot 24310 the rows at 25000 and 24000 go, the
  rows at 24350 and 24300 stay; with the spot 0 all five rows stay.
\<close>

theorem filter_atm_range_window_witness:
  "map Strike_Price (filter_atm_range example_normalized 24310) = [24350, 24300, 24300] \<and>
   map Strike_Price (filter_atm_range example_normalized 0) = [25000, 24350, 24300, 24300, 24000]"
proof -
  have a: "map Strike_Price
      (filter (\<lambda>r. 24050 \<le> Strike_Price r \<and> Strike_Price r \<le> 24550) example_normalized) =
      [24350, 24300, 24300]"
    by code_simp
  have b: "map Strike_Price example_normalized = [25000, 24350, 24300, 24300, 24000]"
    by code_simp
  from filter_atm_range_window [of example_normalized 24310]
  have "filter_atm_range example_normalized 24310 =
     filter (\<lambda>r. 24050 \<le> Strike_Price r \<and> Strike_Price r \<le> 24550) example_normalized"
    by blast
  moreover from filter_atm_range_window [of example_normalized 0]
  have "filter_atm_range example_normalized 0 = example_normalized"
    by simp
  ultimately show ?thesis using a b by simp
qed

section \<open>The expiry selector\<close>

lemma unique_acc_set:
  "set (foldl (\<lambda>seen x. if x \<in> set seen then seen else seen @ [x]) acc xs) = set acc \<union> set xs"
  by (induction xs arbitrary: acc) auto

lemma unique_acc_distinct:
  "distinct acc \<Longrightarrow> distinct (foldl (\<lambda>seen x. if x \<in> set seen then seen else seen @ [x]) acc xs)"
  by (induction xs arbitrary: acc) auto

lemma set_unique: "set (unique xs) = set xs"
  by (simp add: unique_def unique_acc_set)

lemma distinct_unique: "distinct (unique xs)"
  by (simp add: unique_def unique_acc_distinct)

lemma sort_unique: "sort (unique xs) = sorted_list_of_set (set xs)"
proof -
  have "sorted_list_of_set (set (unique xs)) = sort (remdups (unique xs))"
    by (rule sorted_list_of_set_sort_remdups)
  also have "remdups (unique xs) = unique xs"
    by (rule distinct_remdups_id) (rule distinct_unique)
  finally show ?thesis by (simp add: set_unique)
qed

text \<open>The dictionary of month groups: every date lands in a group, and no group is empty.\<close>

lemma group_append_values:
  "(\<Union>a\<in>set (group_append k d g). set (snd a)) = insert d (\<Union>a\<in>set g. set (snd a))"
  by (induction k d g rule: group_append.induct) auto

lemma group_append_nonempty:
  "[] \<notin> snd ` set g \<Longrightarrow> [] \<notin> snd ` set (group_append k d g)"
  by (induction k d g rule: group_append.induct) auto

lemma group_append_not_Nil: "group_append k d g \<noteq> []"
  by (induction k d g rule: group_append.induct) auto

lemma foldl_group_values:
  "(\<Union>a\<in>set (foldl (\<lambda>g d. group_append (f d) d g) g ds). set (snd a)) =
     (\<Union>a\<in>set g. set (snd a)) \<union> set ds"
  by (induction ds arbitrary: g) (simp_all add: group_append_values)

lemma foldl_group_nonempty:
  "[] \<notin> snd ` set g \<Longrightarrow> [] \<notin> snd ` set (foldl (\<lambda>g d. group_append (f d) d g) g ds)"
  by (induction ds arbitrary: g) (simp_all add: group_append_nonempty)

lemma foldl_group_not_Nil:
  "g \<noteq> [] \<or> ds \<noteq> [] \<Longrightarrow> foldl (\<lambda>g d. group_append (f d) d g) g ds \<noteq> []"
  by (induction ds arbitrary: g) (simp_all add: group_append_not_Nil)

lemma month_groups_values: "(\<Union>a\<in>set (month_groups xs). set (snd a)) = set xs"
  by (simp add: month_groups_def foldl_group_values)

lemma month_groups_nonempty: "[] \<notin> snd ` set (month_groups xs)"
  by (simp add: month_groups_def foldl_group_nonempty)

lemma month_groups_not_Nil: "xs \<noteq> [] \<Longrightarrow> month_groups xs \<noteq> []"
  by (simp add: month_groups_def foldl_group_not_Nil)

lemma py_max_Max: "xs \<noteq> [] \<Longrightarrow> py_max xs = Inr (Max (set xs))"
proof (cases xs)
  case Nil
  then show "xs \<noteq> [] \<Longrightarrow> ?thesis" by simp
next
  case (Cons x ys)
  have "(\<lambda>y m. max m y) = (max :: 'a \<Rightarrow> 'a \<Rightarrow> 'a)"
    by (intro ext) (simp add: max.commute)
  then have "foldl max x ys = fold max ys x"
    by (simp add: foldl_conv_fold)
  with Cons show ?thesis
    using Max.set_eq_fold [of x ys] by simp
qed

lemma py_max_each_Max:
  "[] \<notin> set vs \<Longrightarrow> py_max_each vs = Inr (map (\<lambda>v. Max (set v)) vs)"
  by (induction vs) (auto simp: py_max_Max)

text \<open>The greatest of the greatest elements of finitely many sets is the greatest of all.\<close>

lemma Max_of_Max:
  assumes "finite F" "F \<noteq> {}" "\<And>A. A \<in> F \<Longrightarrow> finite A \<and> A \<noteq> {}"
  shows "Max (Max ` F) = Max (\<Union> F)"
proof (rule Max_eqI)
  show "finite (Max ` F)" using assms(1) by simp
  have fin: "finite (\<Union> F)" using assms by auto
  have ne: "\<Union> F \<noteq> {}" using assms by auto
  show "y \<le> Max (\<Union> F)" if "y \<in> Max ` F" for y
  proof -
    from that obtain A where A: "A \<in> F" "y = Max A" by auto
    then have "y \<in> A" using assms(3) by simp
    then have "y \<in> \<Union> F" using A by auto
    then show ?thesis using fin by simp
  qed
  show "Max (\<Union> F) \<in> Max ` F"
  proof -
    have "Max (\<Union> F) \<in> \<Union> F" using fin ne by (rule Max_in)
    then obtain A where A: "A \<in> F" "Max (\<Union> F) \<in> A" by auto
    have "Max A \<in> \<Union> F" using A assms(3) by (meson Max_in UnionI)
    then have "Max A \<le> Max (\<Union> F)" using fin by simp
    moreover have "Max (\<Union> F) \<le> Max A" using A assms(3) by simp
    ultimately have "Max (\<Union> F) = Max A" by simp
    then show ?thesis using A by auto
  qed
qed

lemma monthly_expiry_Max:
  assumes "xs \<noteq> []"
  shows "monthly_expiry xs = Inr (Max (set xs))"
proof -
  let ?vs = "map snd (month_groups xs)"
  have ne: "[] \<notin> set ?vs" using month_groups_nonempty [of xs] by simp
  have nn: "?vs \<noteq> []" using month_groups_not_Nil [OF assms] by simp
  have "monthly_expiry xs = py_max (map (\<lambda>v. Max (set v)) ?vs)"
    by (simp add: monthly_expiry_def py_max_each_Max [OF ne])
  also have "\<dots> = Inr (Max (set (map (\<lambda>v. Max (set v)) ?vs)))"
    using nn by (simp add: py_max_Max)
  also have "set (map (\<lambda>v. Max (set v)) ?vs) = Max ` (set ` set ?vs)"
    by (simp add: image_image)
  also have "Max (Max ` (set ` set ?vs)) = Max (\<Union> (set ` set ?vs))"
  proof (rule Max_of_Max)
    show "finite (set ` set ?vs)" by simp
    show "set ` set ?vs \<noteq> {}" using nn by simp
    show "finite A \<and> A \<noteq> {}" if "A \<in> set ` set ?vs" for A
    proof -
      from that obtain v where v: "v \<in> set ?vs" "A = set v" by blast
      then have "v \<noteq> []" using ne by blast
      then show ?thesis using v by simp
    qed
  qed
  also have "\<Union> (set ` set ?vs) = set xs"
    using month_groups_values [of xs] by simp
  finally show ?thesis .
qed

lemma get_nearest_expiries_Min_Max:
  assumes "df \<noteq> []"
  shows "get_nearest_expiries df =
    Inr (sorted_list_of_set {Min (set (map Expiry_Date df)), Max (set (map Expiry_Date df))})"
proof -
  let ?D = "set (map Expiry_Date df)"
  let ?xs = "sort (unique (map Expiry_Date df))"
  have xs: "?xs = sorted_list_of_set ?D" by (rule sort_unique)
  have D: "finite ?D" "?D \<noteq> {}" using assms by simp_all
  have set_xs: "set ?xs = ?D" by (simp add: set_unique)
  have hd_xs: "?xs = Min ?D # sorted_list_of_set (?D - {Min ?D})"
    unfolding xs using D by (rule sorted_list_of_set_nonempty)
  show ?thesis
  proof (cases "sorted_list_of_set (?D - {Min ?D})")
    case Nil
    then have "?D - {Min ?D} = {}" by (simp add: D)
    then have "?D = {Min ?D}" using D Min_in [OF D] by blast
    then have "Max ?D = Min ?D" by (metis Max_singleton)
    moreover have "?xs = [Min ?D]" using hd_xs Nil by simp
    ultimately show ?thesis
      using assms by (simp add: get_nearest_expiries_def Let_def)
  next
    case (Cons y ys)
    have ne: "?xs \<noteq> []" using hd_xs by simp
    have m: "monthly_expiry ?xs = Inr (Max ?D)"
      using monthly_expiry_Max [OF ne] set_xs by simp
    have "sort (remdups [Min ?D, Max ?D]) = sorted_list_of_set (set [Min ?D, Max ?D])"
      by (simp only: sorted_list_of_set_sort_remdups)
    then have s: "sort (remdups [Min ?D, Max ?D]) = sorted_list_of_set {Min ?D, Max ?D}"
      by simp
    have "get_nearest_expiries df = Inr (sort (remdups [Min ?D, Max ?D]))"
      using assms hd_xs Cons m
      by (simp add: get_nearest_expiries_def Let_def del: remdups.simps sort_key_simps)
    then show ?thesis using s by simp
  qed
qed

lemma get_nearest_expiries_total: "\<exists>el. get_nearest_expiries df = Inr el"
proof (cases "df = []")
  case True
  then show ?thesis by (simp add: get_nearest_expiries_def)
next
  case False
  then show ?thesis by (simp add: get_nearest_expiries_Min_Max)
qed

lemma expiry_selector_spec_Min_Max:
  assumes "finite D" "D \<noteq> {}"
  shows "expiry_selector_spec D = sorted_list_of_set {Min D, Max D}"
proof (cases "card D = 1")
  case True
  then obtain x where "D = {x}" by (auto simp: card_1_singleton_iff)
  then show ?thesis by (simp add: expiry_selector_spec_def)
next
  case False
  let ?key = "\<lambda>d::date. (year d, month d)"
  let ?F = "(\<lambda>k. {d \<in> D. ?key d = k}) ` ?key ` D"
  have "Max (Max ` ?F) = Max (\<Union> ?F)"
  proof (rule Max_of_Max)
    show "finite ?F" using assms by simp
    show "?F \<noteq> {}" using assms by simp
    show "finite A \<and> A \<noteq> {}" if "A \<in> ?F" for A
      using that assms by auto
  qed
  moreover have "\<Union> ?F = D" by auto
  ultimately show ?thesis
    using assms False by (simp add: expiry_selector_spec_def Let_def)
qed

lemma get_nearest_expiries_spec:
  "get_nearest_expiries df = Inr (expiry_selector_spec (set (map Expiry_Date df)))"
proof (cases "df = []")
  case True
  then show ?thesis by (simp add: get_nearest_expiries_def expiry_selector_spec_def)
next
  case False
  then have "set (map Expiry_Date df) \<noteq> {}" by simp
  then show ?thesis
    using False by (simp add: get_nearest_expiries_Min_Max expiry_selector_spec_Min_Max)
qed

lemma example_dated_expiries: "map Expiry_Date (example_dated ds) = ds"
  by (simp add: example_dated_def comp_def)

lemma example_four_dates:
  "get_nearest_expiries (example_dated [(2025, 1, 2), (2025, 1, 9), (2025, 1, 30), (2025, 2, 27)]) =
     Inr [(2025, 1, 2), (2025, 2, 27)]"
  by code_simp

lemma example_one_date:
  "get_nearest_expiries (example_dated [(2025, 1, 2)]) = Inr [(2025, 1, 2)]"
  by code_simp

lemma sorted_list_of_pair:
  assumes "(a :: 'a::linorder) < b"
  shows "sorted_list_of_set {a, b} = [a, b]"
proof -
  have "sorted_list_of_set (set [a, b]) = sort (remdups [a, b])"
    by (rule sorted_list_of_set_sort_remdups)
  also have "remdups [a, b] = [a, b]" using assms by simp
  also have "sort [a, b] = [a, b]" using assms by (simp add: less_imp_le)
  finally show ?thesis by simp
qed

lemma Min_less_Max:
  assumes "finite (D :: 'a::linorder set)" "2 \<le> card D"
  shows "Min D < Max D"
proof -
  have ne: "D \<noteq> {}" using assms by auto
  have "Min D \<le> Max D" using assms ne by simp
  moreover have "Min D \<noteq> Max D"
  proof
    assume e: "Min D = Max D"
    have "x = Min D" if "x \<in> D" for x
      using that assms(1) e by (metis Max_ge Min_le antisym)
    then have "D \<subseteq> {Min D}" by blast
    then have "card D \<le> card {Min D}" by (intro card_mono) simp_all
    then show False using assms(2) by simp
  qed
  ultimately show ?thesis by simp
qed

text \<open>
  Claim C3. On a table with no row the selector returns nothing; with a single distinct
  expiry date it returns that date; otherwise it returns, sorted and without duplicates, the
  earliest date and the latest of the latest dates of the (year, month) groups. This is
  \<open>expiry_selector_spec\<close> applied to the set of expiry dates of the table, and the selector
  always returns (it raises neither ValueError nor IndexError). For the dates 2025-01-02,
  2025-01-09, 2025-01-30 and 2025-02-27 the result is 2025-01-02 and 2025-02-27; for the
  single date 2025-01-02 it is that date.
\<close>

theorem get_nearest_expiries_selector:
  "get_nearest_expiries df = Inr (expiry_selector_spec (set (map Expiry_Date df))) \<and>
   (set (map Expiry_Date df) = {(2025, 1, 2), (2025, 1, 9), (2025, 1, 30), (2025, 2, 27)} \<longrightarrow>
      get_nearest_expiries df = Inr [(2025, 1, 2), (2025, 2, 27)]) \<and>
   (set (map Expiry_Date df) = {(2025, 1, 2)} \<longrightarrow>
      get_nearest_expiries df = Inr [(2025, 1, 2)])"
proof -
  have same: "get_nearest_expiries df = get_nearest_expiries (example_dated ds)"
    if "set (map Expiry_Date df) = set ds" for ds
    using that get_nearest_expiries_spec [of df] get_nearest_expiries_spec [of "example_dated ds"]
    by (simp only: example_dated_expiries)
  have four: "get_nearest_expiries df = Inr [(2025, 1, 2), (2025, 2, 27)]"
    if "set (map Expiry_Date df) = {(2025, 1, 2), (2025, 1, 9), (2025, 1, 30), (2025, 2, 27)}"
  proof -
    have "set (map Expiry_Date df) = set [(2025, 1, 2), (2025, 1, 9), (2025, 1, 30), (2025, 2, 27)]"
      using that by (simp only: list.set)
    from same [OF this] show ?thesis by (simp only: example_four_dates)
  qed
  have one: "get_nearest_expiries df = Inr [(2025, 1, 2)]"
    if "set (map Expiry_Date df) = {(2025, 1, 2)}"
  proof -
    have "set (map Expiry_Date df) = set [(2025, 1, 2)]"
      using that by (simp only: list.set)
    from same [OF this] show ?thesis by (simp only: example_one_date)
  qed
  from get_nearest_expiries_spec [of df] four one show ?thesis by blast
qed

text \<open>
  The four dates in another order and with a repetition, as a table's expiry column has them;
  the empty table; a table whose rows all carry one date.
\<close>

theorem get_nearest_expiries_selector_witness:
  "get_nearest_expiries (example_dated [(2025, 1, 30), (2025, 1, 2), (2025, 2, 27), (2025, 1, 9),
      (2025, 1, 2)]) = Inr [(2025, 1, 2), (2025, 2, 27)] \<and>
   expiry_selector_spec {(2025, 1, 30), (2025, 1, 2), (2025, 2, 27), (2025, 1, 9)} =
     [(2025, 1, 2), (2025, 2, 27)] \<and>
   get_nearest_expiries (example_dated []) = Inr [] \<and>
   get_nearest_expiries (example_dated [(2025, 1, 2), (2025, 1, 2)]) = Inr [(2025, 1, 2)]"
proof -
  let ?ds = "[(2025, 1, 30), (2025, 1, 2), (2025, 2, 27), (2025, 1, 9), (2025, 1, 2)] :: date list"
  have s: "set (map Expiry_Date (example_dated ?ds)) =
      {(2025, 1, 2), (2025, 1, 9), (2025, 1, 30), (2025, 2, 27)}"
    unfolding example_dated_expiries by auto
  have s': "set (map Expiry_Date (example_dated ?ds)) =
      {(2025, 1, 30), (2025, 1, 2), (2025, 2, 27), (2025, 1, 9)}"
    unfolding example_dated_expiries by auto
  have a: "get_nearest_expiries (example_dated ?ds) = Inr [(2025, 1, 2), (2025, 2, 27)]"
    using get_nearest_expiries_selector [of "example_dated ?ds"] s by blast
  have "get_nearest_expiries (example_dated ?ds) =
      Inr (expiry_selector_spec {(2025, 1, 30), (2025, 1, 2), (2025, 2, 27), (2025, 1, 9)})"
    using get_nearest_expiries_selector [of "example_dated ?ds"] unfolding s' by (rule conjunct1)
  then have b: "expiry_selector_spec {(2025, 1, 30), (2025, 1, 2), (2025, 2, 27), (2025, 1, 9)} =
     [(2025, 1, 2), (2025, 2, 27)]"
    unfolding a by (rule sum.inject(2) [THEN iffD1, symmetric])
  have c: "get_nearest_expiries (example_dated ([] :: date list)) = Inr []"
    by code_simp
  have d: "get_nearest_expiries (example_dated [(2025, 1, 2), (2025, 1, 2)]) = Inr [(2025, 1, 2)]"
    by code_simp
  from a b c d show ?thesis by blast
qed

text \<open>
  Claim C8. On a non-empty table the value \<^verbatim>\<open>monthly\<close>, computed by grouping the sorted
  distinct dates by (year, month), taking the latest date of each group and the latest of
  those, is the latest of all dates; so the selector returns the earliest and the latest
  date, sorted and without duplicates, and with two or more distinct dates exactly these two
  in this order.
\<close>

theorem monthly_expiry_is_latest:
  assumes "df \<noteq> []"
  shows "monthly_expiry (sort (unique (map Expiry_Date df))) = Inr (Max (set (map Expiry_Date df))) \<and>
     get_nearest_expiries df = Inr (earliest_latest (set (map Expiry_Date df))) \<and>
     (2 \<le> card (set (map Expiry_Date df)) \<longrightarrow>
        get_nearest_expiries df =
          Inr [Min (set (map Expiry_Date df)), Max (set (map Expiry_Date df))])"
proof -
  let ?D = "set (map Expiry_Date df)"
  have ne: "sort (unique (map Expiry_Date df)) \<noteq> []"
    using assms by (metis list.map_disc_iff set_empty set_sort set_unique)
  have m: "monthly_expiry (sort (unique (map Expiry_Date df))) = Inr (Max ?D)"
    using monthly_expiry_Max [OF ne] by (simp add: set_unique)
  have g: "get_nearest_expiries df = Inr (earliest_latest ?D)"
    using get_nearest_expiries_Min_Max [OF assms] by (simp add: earliest_latest_def)
  have p: "get_nearest_expiries df = Inr [Min ?D, Max ?D]" if "2 \<le> card ?D"
  proof -
    have "Min ?D < Max ?D" using that by (intro Min_less_Max) simp_all
    then have "sorted_list_of_set {Min ?D, Max ?D} = [Min ?D, Max ?D]"
      by (rule sorted_list_of_pair)
    then show ?thesis using get_nearest_expiries_Min_Max [OF assms] by (simp only:)
  qed
  from m g p show ?thesis by blast
qed

text \<open>Four dates in two months: the latest of all, 2025-02-27, is the monthly value.\<close>

theorem monthly_expiry_is_latest_witness:
  "example_dated [(2025, 1, 9), (2025, 1, 2), (2025, 2, 27), (2025, 1, 30)] \<noteq> [] \<and>
   Max (set (map Expiry_Date (example_dated [(2025, 1, 9), (2025, 1, 2), (2025, 2, 27), (2025, 1, 30)]))) =
     (2025, 2, 27) \<and>
   monthly_expiry (sort (unique (map Expiry_Date
     (example_dated [(2025, 1, 9), (2025, 1, 2), (2025, 2, 27), (2025, 1, 30)])))) = Inr (2025, 2, 27) \<and>
   earliest_latest (set (map Expiry_Date
     (example_dated [(2025, 1, 9), (2025, 1, 2), (2025, 2, 27), (2025, 1, 30)]))) =
     [(2025, 1, 2), (2025, 2, 27)]"
proof -
  let ?df = "example_dated [(2025, 1, 9), (2025, 1, 2), (2025, 2, 27), (2025, 1, 30)]"
  have h: "?df \<noteq> []" by (simp add: example_dated_def)
  have m: "monthly_expiry (sort (unique (map Expiry_Date ?df))) = Inr (2025, 2, 27)"
    by code_simp
  have g: "get_nearest_expiries ?df = Inr [(2025, 1, 2), (2025, 2, 27)]"
    by code_simp
  from monthly_expiry_is_latest [OF h] m g h show ?thesis by simp
qed

section \<open>The display projection\<close>

lemma display_columns_undo_renames: "display_columns (undo_renames r) = r"
  by (simp add: display_columns_def undo_renames_def)

text \<open>
  Claim C7. The projection copies the ten displayed values of every row from the normalized
  row (no value is computed), returns the projected rows sorted ascending by (expiry, strike)
  with rows of equal key in table order, and loses or adds no row. Projecting its own output
  again, after the renames are undone, returns the same rows in the same order. The ten
  columns and their order are the fields of \<open>display_row\<close>.
\<close>

theorem prepare_display_reshape:
  "(\<forall>r. Expiry (display_columns r) = Expiry_Date r \<and>
        CE_dLTP (display_columns r) = CALLS_Net_Chng r \<and>
        CE_LTP (display_columns r) = CALLS_LTP r \<and>
        CE_dOI (display_columns r) = CALLS_Chng_in_OI r \<and>
        CE_OI (display_columns r) = CALLS_OI r \<and>
        Strike (display_columns r) = Strike_Price r \<and>
        PE_OI (display_columns r) = PUTS_OI r \<and>
        PE_dOI (display_columns r) = PUTS_Chng_in_OI r \<and>
        PE_LTP (display_columns r) = PUTS_LTP r \<and>
        PE_dLTP (display_columns r) = PUTS_Net_Chng r) \<and>
   sorted (map (\<lambda>r. (Expiry r, Strike r)) (prepare_display df)) \<and>
   mset (prepare_display df) = image_mset display_columns (mset df) \<and>
   (\<forall>k. filter (\<lambda>r. (Expiry r, Strike r) = k) (prepare_display df) =
        filter (\<lambda>r. (Expiry r, Strike r) = k) (map display_columns df)) \<and>
   prepare_display (map undo_renames (prepare_display df)) = prepare_display df"
proof -
  have c: "\<forall>r::(rat, date, 'a) chain_row. Expiry (display_columns r) = Expiry_Date r \<and>
        CE_dLTP (display_columns r) = CALLS_Net_Chng r \<and>
        CE_LTP (display_columns r) = CALLS_LTP r \<and>
        CE_dOI (display_columns r) = CALLS_Chng_in_OI r \<and>
        CE_OI (display_columns r) = CALLS_OI r \<and>
        Strike (display_columns r) = Strike_Price r \<and>
        PE_OI (display_columns r) = PUTS_OI r \<and>
        PE_dOI (display_columns r) = PUTS_Chng_in_OI r \<and>
        PE_LTP (display_columns r) = PUTS_LTP r \<and>
        PE_dLTP (display_columns r) = PUTS_Net_Chng r"
    by (simp add: display_columns_def)
  have s: "sorted (map (\<lambda>r. (Expiry r, Strike r)) (prepare_display df))"
    by (simp add: prepare_display_def)
  have m: "mset (prepare_display df) = image_mset display_columns (mset df)"
    by (simp add: prepare_display_def)
  have st: "\<forall>k. filter (\<lambda>r. (Expiry r, Strike r) = k) (prepare_display df) =
        filter (\<lambda>r. (Expiry r, Strike r) = k) (map display_columns df)"
    unfolding prepare_display_def by (simp add: sort_key_stable)
  have "map display_columns (map undo_renames xs) = xs" for xs
    by (induction xs) (simp_all add: display_columns_undo_renames)
  then have "prepare_display (map undo_renames (prepare_display df)) =
     sort_key (\<lambda>r. (Expiry r, Strike r)) (prepare_display df)"
    by (simp add: prepare_display_def)
  also have "\<dots> = prepare_display df"
    using s by (rule sort_key_id_if_sorted)
  finally have i: "prepare_display (map undo_renames (prepare_display df)) = prepare_display df" .
  from c s m st i show ?thesis by (intro conjI)
qed

text \<open>The normalized example table, displayed: by expiry, then by strike.\<close>

theorem prepare_display_reshape_witness:
  "map (\<lambda>r. (Expiry r, Strike r, CE_dOI r, PE_dOI r)) (prepare_display example_normalized) =
     [((2025, 1, 2), 24300, - 750000, - 10), ((2025, 1, 30), 24300, - 500000, - 700000),
      ((2025, 1, 30), 24350, - 600000, 5), ((2026, 6, 25), 24000, - 900000, 0),
      ((2026, 6, 25), 25000, 10, 20)] \<and>
   prepare_display (map undo_renames (prepare_display example_normalized)) =
     prepare_display example_normalized"
proof -
  have e: "map (\<lambda>r. (Expiry r, Strike r, CE_dOI r, PE_dOI r)) (prepare_display example_normalized) =
     [((2025, 1, 2), 24300, - 750000, - 10), ((2025, 1, 30), 24300, - 500000, - 700000),
      ((2025, 1, 30), 24350, - 600000, 5), ((2026, 6, 25), 24000, - 900000, 0),
      ((2026, 6, 25), 25000, 10, 20)]"
    by code_simp
  from prepare_display_reshape [of example_normalized] e show ?thesis by blast
qed

section \<open>The fetch check\<close>

text \<open>
  Claim C4. When the fetch returns something that is not a table, or a table without rows,
  the pass raises \<^verbatim>\<open>Exception("Empty option chain")\<close> and the state after it is the state
  before it: the snapshot in memory and on disk, the signal log in memory and on disk, the
  spot, the expiry list and the time of the last poll.
\<close>

theorem poll_once_empty_chain:
  "option_chain w = Not_A_DataFrame \<or> option_chain w = DataFrame [] \<Longrightarrow>
   poll_once w st = (Inl (Exception ''Empty option chain''), st)"
  by (auto simp: poll_once_def)

theorem poll_once_empty_chain_witness:
  "poll_once (example_world\<lparr>option_chain := DataFrame []\<rparr>) example_state =
     (Inl (Exception ''Empty option chain''), example_state) \<and>
   poll_once (example_world\<lparr>option_chain := Not_A_DataFrame\<rparr>) example_state =
     (Inl (Exception ''Empty option chain''), example_state)"
  using poll_once_empty_chain [of "example_world\<lparr>option_chain := DataFrame []\<rparr>" example_state]
    poll_once_empty_chain [of "example_world\<lparr>option_chain := Not_A_DataFrame\<rparr>" example_state]
  by simp

section \<open>The signal detector\<close>

lemma case_filter_find:
  "(case filter P xs of [] \<Rightarrow> a | r # rs \<Rightarrow> f r) = (case find P xs of None \<Rightarrow> a | Some r \<Rightarrow> f r)"
  by (induction xs) simp_all

text \<open>On a log labelled 0, 1, 2, ... the assignment at the label \<open>length\<close> appends.\<close>

lemma loc_set_at_length:
  assumes "range_index df"
  shows "loc_set df (length df) row = df @ [(length df, row)]"
proof -
  have "length df \<notin> set (map fst df)"
    using assms unfolding range_index_def by simp
  then show ?thesis by (simp add: loc_set_def)
qed

lemma range_index_snoc:
  "range_index df \<Longrightarrow> range_index (df @ [(length df, row)])"
  by (simp add: range_index_def)

text \<open>The log as the module loads it carries these labels, and a pass keeps them.\<close>

lemma range_index_load_signals: "range_index (load_signals csv)"
  by (cases csv) (simp_all add: load_signals_def range_index_def)

lemma detect_signals_result:
  "fst (detect_signals fmt now outcome df st) = (if outcome = Written then Inr () else Inl OSError)"
  by (simp add: detect_signals_def Let_def to_csv_def split: list.split write_outcome.split)

lemma detect_signals_other_globals:
  "latest_snapshot (snd (detect_signals fmt now outcome df st)) = latest_snapshot st \<and>
   expiry_list (snd (detect_signals fmt now outcome df st)) = expiry_list st \<and>
   latest_spot (snd (detect_signals fmt now outcome df st)) = latest_spot st \<and>
   last_poll_time (snd (detect_signals fmt now outcome df st)) = last_poll_time st \<and>
   SNAPSHOT_CSV (snd (detect_signals fmt now outcome df st)) = SNAPSHOT_CSV st"
  by (simp add: detect_signals_def Let_def to_csv_def split: list.split write_outcome.split)

lemma detect_signals_file:
  "SIGNALS_CSV (snd (detect_signals fmt now outcome df st)) =
     (case outcome of
        Written \<Rightarrow> Some (map snd (signals_df (snd (detect_signals fmt now outcome df st))))
      | Raised_Before_Open \<Rightarrow> SIGNALS_CSV st
      | Raised_After_Open k \<Rightarrow>
          Some (take k (map snd (signals_df (snd (detect_signals fmt now outcome df st))))))"
  by (simp add: detect_signals_def Let_def to_csv_def split: list.split write_outcome.split)

lemma detect_signals_log:
  assumes "range_index (signals_df st)"
  shows "map snd (signals_df (snd (detect_signals fmt now outcome df st))) =
           map snd (signals_df st) @ expected_call_signals fmt now df @ expected_put_signals fmt now df \<and>
         range_index (signals_df (snd (detect_signals fmt now outcome df st)))"
proof -
  let ?log = "signals_df st"
  let ?c = "expected_call_signals fmt now df"
  let ?p = "expected_put_signals fmt now df"
  define s1 where "s1 = (case filter (\<lambda>r. CE_dOI r \<le> - of_int OI_THRESHOLD) df of
                  [] \<Rightarrow> ?log
                | r # _ \<Rightarrow>
                    (let strike = Strike r + of_int STRIKE_OFFSET
                     in loc_set ?log (length ?log)
                          \<lparr>Timestamp = now, Signal = ''BUY CE '' @ fmt strike,
                           Signal_Strike = strike, Reason = call_reason\<rparr>))"
  define s2 where "s2 = (case filter (\<lambda>r. PE_dOI r \<le> - of_int OI_THRESHOLD) df of
                  [] \<Rightarrow> s1
                | r # _ \<Rightarrow>
                    (let strike = Strike r + of_int STRIKE_OFFSET
                     in loc_set s1 (length s1)
                          \<lparr>Timestamp = now, Signal = ''BUY PE '' @ fmt strike,
                           Signal_Strike = strike, Reason = put_reason\<rparr>))"
  have s1: "map snd s1 = map snd ?log @ ?c"
    unfolding s1_def case_filter_find expected_call_signals_def
    by (simp add: Let_def OI_THRESHOLD_def STRIKE_OFFSET_def loc_set_at_length [OF assms]
          split: option.split)
  have r1: "range_index s1"
    unfolding s1_def case_filter_find using assms
    by (simp add: Let_def loc_set_at_length [OF assms] range_index_snoc split: option.split)
  have s2: "map snd s2 = map snd s1 @ ?p"
    unfolding s2_def case_filter_find expected_put_signals_def
    by (simp add: Let_def OI_THRESHOLD_def STRIKE_OFFSET_def loc_set_at_length [OF r1]
          split: option.split)
  have r2: "range_index s2"
    unfolding s2_def case_filter_find using r1
    by (simp add: Let_def loc_set_at_length [OF r1] range_index_snoc split: option.split)
  have "signals_df (snd (detect_signals fmt now outcome df st)) = s2"
    unfolding detect_signals_def s2_def s1_def Let_def by (simp add: split_beta)
  then show ?thesis using s1 s2 r2 by simp
qed

lemma detect_signals_quiet:
  assumes "\<not> (\<exists>r\<in>set df. CE_dOI r \<le> - 500000 \<or> PE_dOI r \<le> - 500000)"
  shows "signals_df (snd (detect_signals fmt now outcome df st)) = signals_df st"
proof -
  have c: "filter (\<lambda>r. CE_dOI r \<le> - of_int OI_THRESHOLD) df = []"
    using assms by (simp add: filter_empty_conv OI_THRESHOLD_def)
  have p: "filter (\<lambda>r. PE_dOI r \<le> - of_int OI_THRESHOLD) df = []"
    using assms by (simp add: filter_empty_conv OI_THRESHOLD_def)
  show ?thesis
    unfolding detect_signals_def Let_def c p by (simp add: split_beta)
qed

lemma find_Some_ex: "find P xs = Some x \<Longrightarrow> \<exists>r\<in>set xs. P r"
  by (induction xs) (auto split: if_splits)

lemma find_first: "\<forall>x\<in>set pre. \<not> P x \<Longrightarrow> P r \<Longrightarrow> find P (pre @ r # post) = Some r"
  by (induction pre) simp_all

lemma expected_call_signals_first:
  assumes "df = pre @ r # post" and "\<forall>x\<in>set pre. \<not> CE_dOI x \<le> - 500000"
    and "CE_dOI r \<le> - 500000"
  shows "expected_call_signals fmt now df =
    [\<lparr>Timestamp = now, Signal = ''BUY CE '' @ fmt (Strike r + 200),
      Signal_Strike = Strike r + 200, Reason = call_reason\<rparr>]"
  unfolding expected_call_signals_def assms(1)
  by (simp add: find_first [where P = "\<lambda>r. CE_dOI r \<le> - 500000", OF assms(2,3)])

lemma expected_put_signals_first:
  assumes "df = pre @ r # post" and "\<forall>x\<in>set pre. \<not> PE_dOI x \<le> - 500000"
    and "PE_dOI r \<le> - 500000"
  shows "expected_put_signals fmt now df =
    [\<lparr>Timestamp = now, Signal = ''BUY PE '' @ fmt (Strike r + 200),
      Signal_Strike = Strike r + 200, Reason = put_reason\<rparr>]"
  unfolding expected_put_signals_def assms(1)
  by (simp add: find_first [where P = "\<lambda>r. PE_dOI r \<le> - 500000", OF assms(2,3)])

lemma length_expected_call_signals:
  "length (expected_call_signals fmt now df) = (if \<exists>r\<in>set df. CE_dOI r \<le> - 500000 then 1 else 0)"
  by (auto simp: expected_call_signals_def find_None_iff split: option.split dest: find_Some_ex)

lemma length_expected_put_signals:
  "length (expected_put_signals fmt now df) = (if \<exists>r\<in>set df. PE_dOI r \<le> - 500000 then 1 else 0)"
  by (auto simp: expected_put_signals_def find_None_iff split: option.split dest: find_Some_ex)

text \<open>
  Claim C1. The log in memory carries the labels 0, 1, 2, ..., as it does when the module has
  loaded it and after every pass. Then one call of the detector appends to it, in this order,
  the call signal and the put signal the specification expects (\<open>expected_call_signals\<close>,
  \<open>expected_put_signals\<close>): per side exactly one signal when at least one row of the table
  has an OI change of at most -500000, and none when no row has. The signal is built from the
  first such row in table order (no row before it reaches the threshold), with the strike
  and the label \<^verbatim>\<open>BUY CE\<close> or \<^verbatim>\<open>BUY PE\<close> at that row's strike plus 200. The labels stay
  0, 1, 2, .... After a completed write the log file holds the rows of the log; after a
  write that raised it is as it was, or holds the rows written before the exception.
  When no row reaches the threshold on either side the log is what it was.
\<close>

theorem detect_signals_appends:
  assumes "range_index (signals_df st)"
  shows
    "map snd (signals_df (snd (detect_signals fmt now outcome df st))) =
       map snd (signals_df st) @ expected_call_signals fmt now df @ expected_put_signals fmt now df \<and>
     length (expected_call_signals fmt now df) =
       (if \<exists>r\<in>set df. CE_dOI r \<le> - 500000 then 1 else 0) \<and>
     length (expected_put_signals fmt now df) =
       (if \<exists>r\<in>set df. PE_dOI r \<le> - 500000 then 1 else 0) \<and>
     range_index (signals_df (snd (detect_signals fmt now outcome df st))) \<and>
     SIGNALS_CSV (snd (detect_signals fmt now outcome df st)) =
       (case outcome of
          Written \<Rightarrow>
            Some (map snd (signals_df st) @
              expected_call_signals fmt now df @ expected_put_signals fmt now df)
        | Raised_Before_Open \<Rightarrow> SIGNALS_CSV st
        | Raised_After_Open k \<Rightarrow>
            Some (take k (map snd (signals_df st) @
              expected_call_signals fmt now df @ expected_put_signals fmt now df))) \<and>
     ((\<exists>r\<in>set df. CE_dOI r \<le> - 500000 \<or> PE_dOI r \<le> - 500000) \<or>
      signals_df (snd (detect_signals fmt now outcome df st)) = signals_df st) \<and>
     (\<forall>pre r post.
        df = pre @ r # post \<and> (\<forall>x\<in>set pre. \<not> CE_dOI x \<le> - 500000) \<and> CE_dOI r \<le> - 500000 \<longrightarrow>
        expected_call_signals fmt now df =
          [\<lparr>Timestamp = now, Signal = ''BUY CE '' @ fmt (Strike r + 200),
            Signal_Strike = Strike r + 200, Reason = call_reason\<rparr>]) \<and>
     (\<forall>pre r post.
        df = pre @ r # post \<and> (\<forall>x\<in>set pre. \<not> PE_dOI x \<le> - 500000) \<and> PE_dOI r \<le> - 500000 \<longrightarrow>
        expected_put_signals fmt now df =
          [\<lparr>Timestamp = now, Signal = ''BUY PE '' @ fmt (Strike r + 200),
            Signal_Strike = Strike r + 200, Reason = put_reason\<rparr>])"
proof -
  note l = detect_signals_log [OF assms, of fmt now outcome df]
  have fc: "\<forall>pre r post.
        df = pre @ r # post \<and> (\<forall>x\<in>set pre. \<not> CE_dOI x \<le> - 500000) \<and> CE_dOI r \<le> - 500000 \<longrightarrow>
        expected_call_signals fmt now df =
          [\<lparr>Timestamp = now, Signal = ''BUY CE '' @ fmt (Strike r + 200),
            Signal_Strike = Strike r + 200, Reason = call_reason\<rparr>]"
    using expected_call_signals_first [of df] by blast
  have fp: "\<forall>pre r post.
        df = pre @ r # post \<and> (\<forall>x\<in>set pre. \<not> PE_dOI x \<le> - 500000) \<and> PE_dOI r \<le> - 500000 \<longrightarrow>
        expected_put_signals fmt now df =
          [\<lparr>Timestamp = now, Signal = ''BUY PE '' @ fmt (Strike r + 200),
            Signal_Strike = Strike r + 200, Reason = put_reason\<rparr>]"
    using expected_put_signals_first [of df] by blast
  have f: "SIGNALS_CSV (snd (detect_signals fmt now outcome df st)) =
       (case outcome of
          Written \<Rightarrow>
            Some (map snd (signals_df st) @
              expected_call_signals fmt now df @ expected_put_signals fmt now df)
        | Raised_Before_Open \<Rightarrow> SIGNALS_CSV st
        | Raised_After_Open k \<Rightarrow>
            Some (take k (map snd (signals_df st) @
              expected_call_signals fmt now df @ expected_put_signals fmt now df)))"
    using detect_signals_file [of fmt now outcome df st] l
    by (cases outcome) simp_all
  have q: "(\<exists>r\<in>set df. CE_dOI r \<le> - 500000 \<or> PE_dOI r \<le> - 500000) \<or>
      signals_df (snd (detect_signals fmt now outcome df st)) = signals_df st"
    using detect_signals_quiet [of df fmt now outcome st] by blast
  from l f q length_expected_call_signals [of fmt now df]
    length_expected_put_signals [of fmt now df]
  have "map snd (signals_df (snd (detect_signals fmt now outcome df st))) =
       map snd (signals_df st) @ expected_call_signals fmt now df @ expected_put_signals fmt now df \<and>
     length (expected_call_signals fmt now df) =
       (if \<exists>r\<in>set df. CE_dOI r \<le> - 500000 then 1 else 0) \<and>
     length (expected_put_signals fmt now df) =
       (if \<exists>r\<in>set df. PE_dOI r \<le> - 500000 then 1 else 0) \<and>
     range_index (signals_df (snd (detect_signals fmt now outcome df st))) \<and>
     SIGNALS_CSV (snd (detect_signals fmt now outcome df st)) =
       (case outcome of
          Written \<Rightarrow>
            Some (map snd (signals_df st) @
              expected_call_signals fmt now df @ expected_put_signals fmt now df)
        | Raised_Before_Open \<Rightarrow> SIGNALS_CSV st
        | Raised_After_Open k \<Rightarrow>
            Some (take k (map snd (signals_df st) @
              expected_call_signals fmt now df @ expected_put_signals fmt now df))) \<and>
     ((\<exists>r\<in>set df. CE_dOI r \<le> - 500000 \<or> PE_dOI r \<le> - 500000) \<or>
      signals_df (snd (detect_signals fmt now outcome df st)) = signals_df st)"
    by (intro conjI) simp_all
  with fc fp show ?thesis by (simp only: simp_thms)
qed

text \<open>
  The displayed example table has four rows at or below the call threshold (one of them at
  -500000 exactly) and one below the put threshold: one call signal from the first, at
  24300 + 200, and one put signal, after the signal already logged. A table with no such row
  leaves the log as it is.
\<close>

theorem detect_signals_appends_witness:
  "range_index (signals_df example_state) \<and>
   map (\<lambda>s. (Signal s, Signal_Strike s))
     (map snd (signals_df (snd (detect_signals example_str_of_num ''2025-01-02 10:00:00'' Written
        (prepare_display example_normalized) example_state)))) =
     [(''BUY PE 24200'', 24200), (''BUY CE 24500'', 24500), (''BUY PE 24500'', 24500)] \<and>
   signals_df (snd (detect_signals example_str_of_num ''2025-01-02 10:00:00'' Written
        (prepare_display (example_dated [(2025, 1, 2)])) example_state)) =
     signals_df example_state"
proof -
  have h: "range_index (signals_df example_state)"
    by (simp add: range_index_def example_state_def)
  have e: "map (\<lambda>s. (Signal s, Signal_Strike s))
      (map snd (signals_df example_state) @
       expected_call_signals example_str_of_num ''2025-01-02 10:00:00''
         (prepare_display example_normalized) @
       expected_put_signals example_str_of_num ''2025-01-02 10:00:00''
         (prepare_display example_normalized)) =
     [(''BUY PE 24200'', 24200), (''BUY CE 24500'', 24500), (''BUY PE 24500'', 24500)]"
    by code_simp
  have n: "\<not> (\<exists>r\<in>set (prepare_display (example_dated [(2025, 1, 2)])).
      CE_dOI r \<le> - 500000 \<or> PE_dOI r \<le> - 500000)"
    by code_simp
  from detect_signals_appends [OF h, of example_str_of_num "''2025-01-02 10:00:00''" Written
      "prepare_display example_normalized"]
  have a: "map snd (signals_df (snd (detect_signals example_str_of_num ''2025-01-02 10:00:00'' Written
        (prepare_display example_normalized) example_state))) =
       map snd (signals_df example_state) @
       expected_call_signals example_str_of_num ''2025-01-02 10:00:00''
         (prepare_display example_normalized) @
       expected_put_signals example_str_of_num ''2025-01-02 10:00:00''
         (prepare_display example_normalized)"
    by (rule conjunct1)
  from detect_signals_appends [OF h, of example_str_of_num "''2025-01-02 10:00:00''" Written
      "prepare_display (example_dated [(2025, 1, 2)])"] n
  have b: "signals_df (snd (detect_signals example_str_of_num ''2025-01-02 10:00:00'' Written
        (prepare_display (example_dated [(2025, 1, 2)])) example_state)) =
     signals_df example_state"
    by blast
  from h e b show ?thesis unfolding a by (intro conjI)
qed

section \<open>One pass\<close>

text \<open>A pass that got a table with rows, written out by how the two writes ended.\<close>

lemma poll_once_DataFrame:
  assumes "option_chain w = DataFrame raw" and "raw \<noteq> []"
    and "get_nearest_expiries
           (filter_atm_range (process_option_chain (num_of_string w) (to_datetime w) raw)
              (get_nifty_spot (spot_response w))) = Inr el"
    and "tbl = prepare_display (filter (\<lambda>r. Expiry_Date r \<in> set el)
           (filter_atm_range (process_option_chain (num_of_string w) (to_datetime w) raw)
              (get_nifty_spot (spot_response w))))"
    and "st4 = snd (detect_signals (str_of_num w) (now_signals w) (signals_csv_write w) tbl
           (st\<lparr>latest_spot := get_nifty_spot (spot_response w), expiry_list := el,
               latest_snapshot := tbl\<rparr>))"
  shows "poll_once w st =
     (if signals_csv_write w \<noteq> Written then (Inl OSError, st4)
      else
        (case snapshot_csv_write w of
           Written \<Rightarrow>
             (Inr tbl, st4\<lparr>last_poll_time := Some (now_poll w), SNAPSHOT_CSV := Some tbl\<rparr>)
         | Raised_Before_Open \<Rightarrow> (Inl OSError, st4\<lparr>last_poll_time := Some (now_poll w)\<rparr>)
         | Raised_After_Open k \<Rightarrow>
             (Inl OSError,
              st4\<lparr>last_poll_time := Some (now_poll w), SNAPSHOT_CSV := Some (take k tbl)\<rparr>)))"
proof -
  let ?st3 = "st\<lparr>latest_spot := get_nifty_spot (spot_response w), expiry_list := el,
               latest_snapshot := tbl\<rparr>"
  obtain res s where ds:
    "detect_signals (str_of_num w) (now_signals w) (signals_csv_write w) tbl ?st3 = (res, s)"
    by (cases "detect_signals (str_of_num w) (now_signals w) (signals_csv_write w) tbl ?st3")
  have res: "res = (if signals_csv_write w = Written then Inr () else Inl OSError)"
    using detect_signals_result [of "str_of_num w" "now_signals w" "signals_csv_write w" tbl ?st3]
    by (simp add: ds)
  have s: "s = st4" using assms(5) ds by simp
  show ?thesis
    unfolding poll_once_def
    using assms(1,2,3) ds res s
    by (simp add: Let_def to_csv_def assms(4) [symmetric] split: write_outcome.split)
qed

text \<open>
  Claim C6, as amended. In a pass that got a table with rows, the expiry list the pass leaves
  is the selector applied to the normalized table after the strike-window filter at the
  spot of this pass. The state before the pass does not enter: two passes in the same world
  leave the same list, whatever their states before. With a spot that is not positive the
  filter keeps every row, and the list is the selector applied to the whole normalized table.
\<close>

theorem poll_once_expiry_list:
  assumes "option_chain w = DataFrame raw" and "raw \<noteq> []"
  shows "get_nearest_expiries
           (filter_atm_range (process_option_chain (num_of_string w) (to_datetime w) raw)
              (get_nifty_spot (spot_response w))) =
         Inr (expiry_list (snd (poll_once w st))) \<and>
     expiry_list (snd (poll_once w st')) = expiry_list (snd (poll_once w st)) \<and>
     (get_nifty_spot (spot_response w) \<le> 0 \<longrightarrow>
        get_nearest_expiries (process_option_chain (num_of_string w) (to_datetime w) raw) =
        Inr (expiry_list (snd (poll_once w st))))"
proof -
  obtain el where el: "get_nearest_expiries
           (filter_atm_range (process_option_chain (num_of_string w) (to_datetime w) raw)
              (get_nifty_spot (spot_response w))) = Inr el"
    using get_nearest_expiries_total by blast
  have a: "expiry_list (snd (poll_once w s)) = el" for s
    by (simp add: poll_once_DataFrame [OF assms el refl refl] detect_signals_other_globals
          split: write_outcome.split)
  have b: "get_nearest_expiries (process_option_chain (num_of_string w) (to_datetime w) raw) = Inr el"
    if "get_nifty_spot (spot_response w) \<le> 0"
    using el that by (simp add: filter_atm_range_def)
  from el a b show ?thesis by simp
qed

lemma example_pass_expiry_list:
  "expiry_list (snd (poll_once example_world example_state)) = [(2025, 1, 2), (2025, 1, 30)]"
  by code_simp

lemma example_full_chain_expiries:
  "get_nearest_expiries
     (process_option_chain (num_of_string example_world) (to_datetime example_world) example_chain) =
   Inr [(2025, 1, 2), (2026, 6, 25)]"
  by code_simp

lemma example_world_chain: "option_chain example_world = DataFrame example_chain"
  by (simp add: example_world_def)

lemma example_chain_rows: "example_chain \<noteq> []"
  by (simp add: example_chain_def)

text \<open>
  In the example the spot is 24310 and the June 2026 expiry is listed at 24000 and 25000 only:
  the window leaves the two January dates.
\<close>

theorem poll_once_expiry_list_witness:
  "get_nearest_expiries
     (filter_atm_range
        (process_option_chain (num_of_string example_world) (to_datetime example_world) example_chain)
        (get_nifty_spot (spot_response example_world))) =
   Inr [(2025, 1, 2), (2025, 1, 30)]"
  using poll_once_expiry_list [OF example_world_chain example_chain_rows, of example_state,
      THEN conjunct1]
  by (simp only: example_pass_expiry_list)

text \<open>
  The claim as the specification states it fails on the example: the selector applied to the
  whole normalized table returns 2025-01-02 and 2026-06-25, the pass leaves 2025-01-02 and
  2025-01-30.
\<close>

theorem poll_once_full_chain_counterexample:
  "get_nearest_expiries
     (process_option_chain (num_of_string example_world) (to_datetime example_world) example_chain) \<noteq>
   Inr (expiry_list (snd (poll_once example_world example_state)))"
  by (simp add: example_pass_expiry_list example_full_chain_expiries)

text \<open>
  Claim C10, as amended. In a pass that got a table with rows, with the log labelled
  0, 1, 2, ...: the signals of this pass are appended to the log in memory however the
  writes end. The log file is written first: after a completed write it holds the log with
  the new signals, whatever happens to the snapshot file afterwards. The snapshot file is
  touched only when the log file was written completely; then it holds the table of this
  pass after a completed write, the previous table after a write that raised before the
  file was opened, and the rows of the new table written so far (none, or some) after a
  write that raised later. The pass returns the table only when both writes completed.
\<close>

theorem poll_once_signals_before_snapshot:
  assumes "option_chain w = DataFrame raw" and "raw \<noteq> []" and "range_index (signals_df st)"
  shows
    "map snd (signals_df (snd (poll_once w st))) =
       map snd (signals_df st) @
       expected_call_signals (str_of_num w) (now_signals w) (latest_snapshot (snd (poll_once w st))) @
       expected_put_signals (str_of_num w) (now_signals w) (latest_snapshot (snd (poll_once w st))) \<and>
     SIGNALS_CSV (snd (poll_once w st)) =
       (case signals_csv_write w of
          Written \<Rightarrow>
            Some (map snd (signals_df st) @
              expected_call_signals (str_of_num w) (now_signals w)
                (latest_snapshot (snd (poll_once w st))) @
              expected_put_signals (str_of_num w) (now_signals w)
                (latest_snapshot (snd (poll_once w st))))
        | Raised_Before_Open \<Rightarrow> SIGNALS_CSV st
        | Raised_After_Open k \<Rightarrow>
            Some (take k (map snd (signals_df st) @
              expected_call_signals (str_of_num w) (now_signals w)
                (latest_snapshot (snd (poll_once w st))) @
              expected_put_signals (str_of_num w) (now_signals w)
                (latest_snapshot (snd (poll_once w st)))))) \<and>
     SNAPSHOT_CSV (snd (poll_once w st)) =
       (if signals_csv_write w = Written
        then (case snapshot_csv_write w of
                Written \<Rightarrow> Some (latest_snapshot (snd (poll_once w st)))
              | Raised_Before_Open \<Rightarrow> SNAPSHOT_CSV st
              | Raised_After_Open k \<Rightarrow> Some (take k (latest_snapshot (snd (poll_once w st)))))
        else SNAPSHOT_CSV st) \<and>
     fst (poll_once w st) =
       (if signals_csv_write w = Written \<and> snapshot_csv_write w = Written
        then Inr (latest_snapshot (snd (poll_once w st)))
        else Inl OSError) \<and>
     last_poll_time (snd (poll_once w st)) =
       (if signals_csv_write w = Written then Some (now_poll w) else last_poll_time st)"
proof -
  obtain el where el: "get_nearest_expiries
           (filter_atm_range (process_option_chain (num_of_string w) (to_datetime w) raw)
              (get_nifty_spot (spot_response w))) = Inr el"
    using get_nearest_expiries_total by blast
  define tbl where "tbl = prepare_display (filter (\<lambda>r. Expiry_Date r \<in> set el)
           (filter_atm_range (process_option_chain (num_of_string w) (to_datetime w) raw)
              (get_nifty_spot (spot_response w))))"
  define st3 where "st3 = st\<lparr>latest_spot := get_nifty_spot (spot_response w), expiry_list := el,
               latest_snapshot := tbl\<rparr>"
  define st4 where
    "st4 = snd (detect_signals (str_of_num w) (now_signals w) (signals_csv_write w) tbl st3)"
  have p: "poll_once w st =
     (if signals_csv_write w \<noteq> Written then (Inl OSError, st4)
      else
        (case snapshot_csv_write w of
           Written \<Rightarrow>
             (Inr tbl, st4\<lparr>last_poll_time := Some (now_poll w), SNAPSHOT_CSV := Some tbl\<rparr>)
         | Raised_Before_Open \<Rightarrow> (Inl OSError, st4\<lparr>last_poll_time := Some (now_poll w)\<rparr>)
         | Raised_After_Open k \<Rightarrow>
             (Inl OSError,
              st4\<lparr>last_poll_time := Some (now_poll w), SNAPSHOT_CSV := Some (take k tbl)\<rparr>)))"
    by (rule poll_once_DataFrame [OF assms(1,2) el tbl_def]) (simp add: st4_def st3_def)
  have r3: "range_index (signals_df st3)" using assms(3) by (simp add: st3_def)
  note o = detect_signals_other_globals [of "str_of_num w" "now_signals w" "signals_csv_write w" tbl st3,
      folded st4_def]
  have snap: "latest_snapshot st4 = tbl" using o by (simp add: st3_def)
  have csv: "SNAPSHOT_CSV st4 = SNAPSHOT_CSV st" using o by (simp add: st3_def)
  have lpt: "last_poll_time st4 = last_poll_time st" using o by (simp add: st3_def)
  have log: "map snd (signals_df st4) =
       map snd (signals_df st) @
       expected_call_signals (str_of_num w) (now_signals w) tbl @
       expected_put_signals (str_of_num w) (now_signals w) tbl"
  proof -
    have "signals_df st3 = signals_df st" by (simp add: st3_def)
    with detect_signals_log [OF r3, of "str_of_num w" "now_signals w" "signals_csv_write w" tbl,
      folded st4_def]
    show ?thesis by simp
  qed
  have sig: "SIGNALS_CSV st4 =
       (case signals_csv_write w of
          Written \<Rightarrow> Some (map snd (signals_df st4))
        | Raised_Before_Open \<Rightarrow> SIGNALS_CSV st
        | Raised_After_Open k \<Rightarrow> Some (take k (map snd (signals_df st4))))"
  proof -
    have "SIGNALS_CSV st3 = SIGNALS_CSV st" by (simp add: st3_def)
    with detect_signals_file [of "str_of_num w" "now_signals w" "signals_csv_write w" tbl st3,
      folded st4_def]
    show ?thesis by (cases "signals_csv_write w") simp_all
  qed
  have s': "latest_snapshot (snd (poll_once w st)) = tbl"
    by (simp add: p snap split: write_outcome.split)
  have a: "map snd (signals_df (snd (poll_once w st))) = map snd (signals_df st4)"
    by (simp add: p split: write_outcome.split)
  have b: "SIGNALS_CSV (snd (poll_once w st)) = SIGNALS_CSV st4"
    by (simp add: p split: write_outcome.split)
  have c: "SNAPSHOT_CSV (snd (poll_once w st)) =
       (if signals_csv_write w = Written
        then (case snapshot_csv_write w of
                Written \<Rightarrow> Some tbl
              | Raised_Before_Open \<Rightarrow> SNAPSHOT_CSV st
              | Raised_After_Open k \<Rightarrow> Some (take k tbl))
        else SNAPSHOT_CSV st)"
    by (simp add: p csv split: write_outcome.split)
  have d: "fst (poll_once w st) =
       (if signals_csv_write w = Written \<and> snapshot_csv_write w = Written
        then Inr tbl else Inl OSError)"
    by (simp add: p split: write_outcome.split)
  have e: "last_poll_time (snd (poll_once w st)) =
       (if signals_csv_write w = Written then Some (now_poll w) else last_poll_time st)"
    by (simp add: p lpt split: write_outcome.split)
  show ?thesis
    unfolding s' a b c d e sig log by simp
qed

text \<open>
  The example pass with a snapshot file that cannot be opened for writing: the pass raises,
  the log file holds the old signal and the two new ones, the snapshot file holds the row
  saved before.
\<close>

theorem poll_once_signals_before_snapshot_witness:
  "fst (poll_once (example_world\<lparr>snapshot_csv_write := Raised_Before_Open\<rparr>) example_state) =
     Inl OSError \<and>
   map_option (map Signal)
     (SIGNALS_CSV (snd (poll_once (example_world\<lparr>snapshot_csv_write := Raised_Before_Open\<rparr>)
        example_state))) =
     Some [''BUY PE 24200'', ''BUY CE 24500'', ''BUY PE 24500''] \<and>
   SNAPSHOT_CSV (snd (poll_once (example_world\<lparr>snapshot_csv_write := Raised_Before_Open\<rparr>)
     example_state)) = Some [example_previous_row]"
proof -
  let ?w = "example_world\<lparr>snapshot_csv_write := Raised_Before_Open\<rparr>"
  have h1: "option_chain ?w = DataFrame example_chain"
    by (simp add: example_world_def)
  have h3: "range_index (signals_df example_state)"
    by (simp add: range_index_def example_state_def)
  have wr: "signals_csv_write ?w = Written" "snapshot_csv_write ?w = Raised_Before_Open"
    by (simp_all add: example_world_def)
  have prev: "SNAPSHOT_CSV example_state = Some [example_previous_row]"
    by (simp add: example_state_def)
  have e: "map Signal (map snd (signals_df example_state) @
       expected_call_signals (str_of_num ?w) (now_signals ?w)
         (latest_snapshot (snd (poll_once ?w example_state))) @
       expected_put_signals (str_of_num ?w) (now_signals ?w)
         (latest_snapshot (snd (poll_once ?w example_state)))) =
     [''BUY PE 24200'', ''BUY CE 24500'', ''BUY PE 24500'']"
    by code_simp
  note t = poll_once_signals_before_snapshot [OF h1 example_chain_rows h3]
  from t wr have a: "fst (poll_once ?w example_state) = Inl OSError"
    by simp
  from t wr have "SIGNALS_CSV (snd (poll_once ?w example_state)) =
      Some (map snd (signals_df example_state) @
       expected_call_signals (str_of_num ?w) (now_signals ?w)
         (latest_snapshot (snd (poll_once ?w example_state))) @
       expected_put_signals (str_of_num ?w) (now_signals ?w)
         (latest_snapshot (snd (poll_once ?w example_state))))"
    by simp
  then have b: "map_option (map Signal) (SIGNALS_CSV (snd (poll_once ?w example_state))) =
     Some [''BUY PE 24200'', ''BUY CE 24500'', ''BUY PE 24500'']"
    using e by (simp only: option.map)
  from t wr prev have c: "SNAPSHOT_CSV (snd (poll_once ?w example_state)) =
      Some [example_previous_row]"
    by simp
  from a b c show ?thesis by (intro conjI)
qed

text \<open>
  The claim as stated fails where the snapshot write raises after the file was opened, here
  after one row: the pass raises, the new signals are in the log file, and the snapshot file
  holds one row of the new table (strike 24300), not the row saved before (strike 24100).
\<close>

theorem poll_once_torn_snapshot_counterexample:
  "fst (poll_once (example_world\<lparr>snapshot_csv_write := Raised_After_Open 1\<rparr>) example_state) =
     Inl OSError \<and>
   map_option (map Signal)
     (SIGNALS_CSV (snd (poll_once (example_world\<lparr>snapshot_csv_write := Raised_After_Open 1\<rparr>)
        example_state))) =
     Some [''BUY PE 24200'', ''BUY CE 24500'', ''BUY PE 24500''] \<and>
   SNAPSHOT_CSV (snd (poll_once (example_world\<lparr>snapshot_csv_write := Raised_After_Open 1\<rparr>)
     example_state)) \<noteq> SNAPSHOT_CSV example_state"
proof -
  let ?w = "example_world\<lparr>snapshot_csv_write := Raised_After_Open 1\<rparr>"
  have a: "fst (poll_once ?w example_state) = Inl OSError"
    by code_simp
  have b: "map_option (map Signal) (SIGNALS_CSV (snd (poll_once ?w example_state))) =
     Some [''BUY PE 24200'', ''BUY CE 24500'', ''BUY PE 24500'']"
    by code_simp
  have new: "map_option (map Strike) (SNAPSHOT_CSV (snd (poll_once ?w example_state))) =
     Some [24300]"
    by code_simp
  have old: "map_option (map Strike) (SNAPSHOT_CSV example_state) = Some [24100]"
    by (simp add: example_state_def example_previous_row_def)
  have c: "SNAPSHOT_CSV (snd (poll_once ?w example_state)) \<noteq> SNAPSHOT_CSV example_state"
  proof
    assume "SNAPSHOT_CSV (snd (poll_once ?w example_state)) = SNAPSHOT_CSV example_state"
    with new old show False by auto
  qed
  from a b c show ?thesis by (intro conjI)
qed

end
